theory Spec2Isabelle
  imports Main
begin

section \<open>Strings and errors\<close>

text \<open>
  Go strings are byte sequences; they are modelled as \<open>string\<close> (a list of 8-bit
  characters), and \<open>[]byte(s)\<close> is the same list.  The functions of package
  \<open>strings\<close> that plugin.go calls are written out.
\<close>

fun HasPrefix :: "string \<Rightarrow> string \<Rightarrow> bool" where
  "HasPrefix s [] = True"
| "HasPrefix [] (p # ps) = False"
| "HasPrefix (c # s) (p # ps) = (c = p \<and> HasPrefix s ps)"

text \<open>\<open>strings.Contains(s, substr)\<close>: \<open>substr\<close> occurs somewhere within \<open>s\<close>.\<close>

fun Contains :: "string \<Rightarrow> string \<Rightarrow> bool" where
  "Contains [] substr = (substr = [])"
| "Contains (c # s) substr = (HasPrefix (c # s) substr \<or> Contains s substr)"

text \<open>\<open>strings.Join(elems, sep)\<close>.\<close>

fun Join :: "string list \<Rightarrow> string \<Rightarrow> string" where
  "Join [] sep = []"
| "Join [x] sep = x"
| "Join (x # y # xs) sep = x @ sep @ Join (y # xs) sep"

text \<open>
  \<open>fmt.Sprintf\<close>, for a format in which every \<open>%\<close> starts the verb \<open>%s\<close> and
  for string operands: each verb is replaced by the next operand; a verb without
  an operand and operands without a verb are reported in the output as Go does.
\<close>

fun Sprintf :: "string \<Rightarrow> string list \<Rightarrow> string" where
  "Sprintf [] args =
     (if args = [] then []
      else ''%!(EXTRA '' @ Join (map (\<lambda>a. ''string='' @ a) args) '', '' @ '')'')"
| "Sprintf [c] args = c # Sprintf [] args"
| "Sprintf (c # d # fmt) args =
     (if c = CHR ''%'' \<and> d = CHR ''s'' then
        (case args of
           [] \<Rightarrow> ''%!s(MISSING)'' @ Sprintf fmt []
         | a # as \<Rightarrow> a @ Sprintf fmt as)
      else c # Sprintf (d # fmt) args)"

text \<open>
  Modelled from the spec: the type \<open>strError\<close> and its method \<open>WithArgs\<close> are
  declared outside plugin.go.  A \<open>strError\<close> is a string; as an \<open>error\<close> its
  message is the string itself.  \<open>WithArgs\<close> gives the error that names the
  arguments: it keeps the \<open>strError\<close> and the arguments, and its message is the
  \<open>strError\<close> formatted with them.  \<open>Error\<close> is \<open>err.Error()\<close>.
\<close>

datatype error = strError string | errWithArgs string "string list"

definition WithArgs :: "string \<Rightarrow> string list \<Rightarrow> error" where
  "WithArgs e args = errWithArgs e args"

fun Error :: "error \<Rightarrow> string" where
  "Error (strError s) = s"
| "Error (errWithArgs fmt args) = Sprintf fmt args"

text \<open>The \<open>strError\<close> constants of plugin.go.\<close>

definition ErrProvisonFailed :: string where
  "ErrProvisonFailed = ''authorization provider provisioning error''"

definition ErrEmptySecret :: string where
  "ErrEmptySecret = ''grantor token secret not configured''"

definition ErrNoClaims :: string where
  "ErrNoClaims = ''provided claims are nil''"

definition ErrUnsupportedSigningMethod :: string where
  "ErrUnsupportedSigningMethod = ''grantor does not support %s token signing method''"

section \<open>Token grantor\<close>

text \<open>
  The claim set.  Its declaration is outside plugin.go; these are the fields that
  \<open>Authenticate\<close> reads.  A \<open>*UserClaims\<close> is a \<open>UserClaims option\<close>, \<open>None\<close> for nil.
\<close>

record UserClaims =
  Subject :: string
  Email :: string
  Name :: string
  Roles :: "string list"

text \<open>
  \<open>TokenGrantor\<close> embeds \<open>CommonTokenConfig\<close>, of which \<open>GrantToken\<close> and
  \<open>Validate\<close> read the field \<open>TokenSecret\<close>.
\<close>

record TokenGrantor =
  TokenSecret :: string

definition Validate :: "TokenGrantor \<Rightarrow> error option" where
  "Validate g = (if TokenSecret g = '''' then Some (strError ErrEmptySecret) else None)"

text \<open>
  \<open>GrantToken\<close> returns a Go pair \<open>(string, error)\<close>.  The table \<open>methods\<close> of
  registered signing algorithms and the claim set's \<open>GetToken\<close> are declared outside
  plugin.go and are parameters: \<open>methods\<close> is a map keyed by method name, and
  \<open>GetToken claims method secret\<close> is the pair that \<open>claims.GetToken\<close> returns.
\<close>

definition GrantToken ::
  "(string \<rightharpoonup> 'm) \<Rightarrow> (UserClaims \<Rightarrow> string \<Rightarrow> string \<Rightarrow> string \<times> error option) \<Rightarrow>
   TokenGrantor \<Rightarrow> string \<Rightarrow> UserClaims option \<Rightarrow> string \<times> error option" where
  "GrantToken methods GetToken g method claims =
     (if methods method = None then
        ('''', Some (WithArgs ErrUnsupportedSigningMethod [method]))
      else
        (case claims of
           None \<Rightarrow> ('''', Some (strError ErrNoClaims))
         | Some c \<Rightarrow>
             if TokenSecret g = '''' then ('''', Some (strError ErrEmptySecret))
             else GetToken c method (TokenSecret g)))"

section \<open>HTTP messages\<close>

text \<open>
  An \<open>http.Header\<close> maps a header name to the list of its values.  \<open>Set\<close> replaces
  the values of a name by one value, \<open>Add\<close> appends a value.  Both canonicalise the
  name first; every name plugin.go passes (\<open>Location\<close>, \<open>Set-Cookie\<close>,
  \<open>X-Token-User-Name\<close>, \<open>X-Token-User-Email\<close>, \<open>X-Token-User-Roles\<close>,
  \<open>X-Token-Subject\<close>) is already in canonical form.
\<close>

type_synonym Header = "string \<rightharpoonup> string list"

definition Header_Values :: "Header \<Rightarrow> string \<Rightarrow> string list" where
  "Header_Values h k = (case h k of None \<Rightarrow> [] | Some vs \<Rightarrow> vs)"

definition Header_Set :: "Header \<Rightarrow> string \<Rightarrow> string \<Rightarrow> Header" where
  "Header_Set h k v = h(k \<mapsto> [v])"

definition Header_Add :: "Header \<Rightarrow> string \<Rightarrow> string \<Rightarrow> Header" where
  "Header_Add h k v = h(k \<mapsto> Header_Values h k @ [v])"

text \<open>
  The \<open>http.ResponseWriter\<close> is an interface; it is modelled by what
  \<open>Authenticate\<close> does to it: the header map returned by \<open>w.Header()\<close>, the status
  codes passed to \<open>w.WriteHeader\<close> in call order, and the byte strings passed to
  \<open>w.Write\<close> in call order.
\<close>

record ResponseWriter =
  headers :: Header
  statuses :: "nat list"
  bodies :: "string list"

definition WriteHeader :: "ResponseWriter \<Rightarrow> nat \<Rightarrow> ResponseWriter" where
  "WriteHeader w code = w\<lparr>statuses := statuses w @ [code]\<rparr>"

definition Write :: "ResponseWriter \<Rightarrow> string \<Rightarrow> ResponseWriter" where
  "Write w b = w\<lparr>bodies := bodies w @ [b]\<rparr>"

text \<open>The fields of \<open>*http.Request\<close> that \<open>Authenticate\<close> and its helpers read or set.\<close>

record Request =
  Method :: string
  URL_Path :: string
  RequestURI :: string
  Header :: Header

section \<open>Provider configuration and collaborators\<close>

text \<open>
  \<open>TokenValidatorOptions\<close> is declared outside plugin.go; \<open>Authenticate\<close> uses its
  \<open>Metadata\<close> map and its \<open>Clone\<close> method.  Options are shared through pointers, so
  they live in a store: a list of option objects, a pointer being an index into it.
\<close>

record TokenValidatorOptions =
  Metadata :: "string \<rightharpoonup> string"

type_synonym opts_store = "TokenValidatorOptions list"

text \<open>
  Modelled from the spec: \<open>TokenValidatorOptions.Clone\<close> is declared outside
  plugin.go.  The spec calls its result an independent copy of the options; the
  copy is a new object of the store with the fields of the original.
\<close>

definition Clone :: "opts_store \<Rightarrow> nat \<Rightarrow> nat \<times> opts_store" where
  "Clone st a = (length st, st @ [st ! a])"

text \<open>\<open>caddyauth.User\<close>; its zero value has an empty identifier and no metadata.\<close>

record User =
  ID :: string
  Metadata :: "string \<rightharpoonup> string"

definition User_zero :: User where
  "User_zero = \<lparr>ID = '''', Metadata = Map.empty\<rparr>"

text \<open>
  The token validator is declared outside plugin.go.  \<open>Cookies\<close> is a Go map keyed
  by cookie name; the model keeps its keys, in the order in which the \<open>range\<close>
  loop of the call visits them.  \<open>Authorize\<close> is the validation contract: from the
  request and the options it yields the claim set, the validity flag and the error.
\<close>

record TokenValidator =
  Cookies :: "string list"
  Authorize :: "Request \<Rightarrow> TokenValidatorOptions \<Rightarrow> UserClaims option \<times> bool \<times> error option"

text \<open>
  \<open>AuthProvider\<close>.  The fields \<open>AccessList\<close>, \<open>TrustedTokens\<close>, \<open>logger\<close> and
  \<open>startedAt\<close> are left out: their types are declared elsewhere and \<open>Authenticate\<close>
  reads none of them but the logger, whose calls are recorded as events below.
  \<open>TokenValidator\<close> and \<open>TokenValidatorOptions\<close> are pointers that \<open>Authenticate\<close>
  dereferences without a nil check; the model covers providers in which both point
  to objects: the validator is a value of the record, and the options pointer is
  the index of an object of the store.  In the same way the request has its URL
  and its header map, as every request the server hands over has, and the pool
  returns an instance whenever it returns no error.
\<close>

record AuthProvider =
  Name :: string
  Provisioned :: bool
  ProvisionFailed :: bool
  Context :: string
  PrimaryInstance :: bool
  AuthURLPath :: string
  AuthRedirectQueryDisabled :: bool
  AuthRedirectQueryParameter :: string
  TokenValidator :: TokenValidator
  TokenValidatorOptions :: nat
  AllowedTokenTypes :: "string list"
  AllowedTokenSources :: "string list"
  PassClaims :: bool
  StripToken :: bool
  ForbiddenURL :: string
  ValidateMethodPath :: bool
  ValidateAccessListPathClaim :: bool
  PassClaimsWithHeaders :: bool

text \<open>
  What a call does besides writing the response and the request is kept as a list
  of events: the calls of \<open>ProviderPool.Provision\<close> and of the validator's
  \<open>Authorize\<close> (with the request, the options pointer and the options it points
  to), and the log entries (message and fields).
\<close>

datatype event =
    call_Provision string
  | call_Authorize Request nat TokenValidatorOptions
  | log_Error string "(string \<times> string) list"
  | log_Debug string "(string \<times> string) list"

text \<open>
  The state a call runs in: the response writer \<open>w\<close>, the request \<open>r\<close>, the global
  \<open>ProviderPool\<close>, the store of option objects and the events so far.
\<close>

record 'p state =
  resp :: ResponseWriter
  req :: Request
  pool :: 'p
  store :: opts_store
  trace :: "event list"

section \<open>Authenticate\<close>

definition expire_cookie :: "string \<Rightarrow> string" where
  "expire_cookie k = k @ ''=delete; path=/; expires=Thu, 01 Jan 1970 00:00:00 GMT''"

text \<open>The loop \<open>for k := range m.TokenValidator.Cookies { w.Header().Add(...) }\<close>.\<close>

fun purge_cookies :: "ResponseWriter \<Rightarrow> string list \<Rightarrow> ResponseWriter" where
  "purge_cookies w [] = w"
| "purge_cookies w (k # ks) =
     purge_cookies (w\<lparr>headers := Header_Add (headers w) ''Set-Cookie'' (expire_cookie k)\<rparr>) ks"

text \<open>
  Modelled from the spec: \<open>addRedirectLocationHeader\<close> is declared outside
  plugin.go.  By the spec it computes the login redirect target from the request,
  the configured URL path, the flag that disables the query parameter and the
  parameter's name, and that target is the \<open>Location\<close> header of the response,
  attached if configured.  The computation of the target is the parameter
  \<open>target\<close>, \<open>None\<close> when no header is attached.
\<close>

definition addRedirectLocationHeader ::
  "(Request \<Rightarrow> string \<Rightarrow> bool \<Rightarrow> string \<Rightarrow> string option) \<Rightarrow>
   ResponseWriter \<Rightarrow> Request \<Rightarrow> string \<Rightarrow> bool \<Rightarrow> string \<Rightarrow> ResponseWriter" where
  "addRedirectLocationHeader target w r authURLPath authRedirectQueryDisabled authRedirectQueryParameter =
     (case target r authURLPath authRedirectQueryDisabled authRedirectQueryParameter of
        None \<Rightarrow> w
      | Some v \<Rightarrow> w\<lparr>headers := Header_Set (headers w) ''Location'' v\<rparr>)"

definition forbidden_marker :: string where
  "forbidden_marker = ''user role is valid, but not allowed by''"

text \<open>
  Lines 133 to 140 of plugin.go, the preparation of the options: the pointer
  \<open>opts\<close> that is passed to the validator, and the store afterwards.  The two
  assignments to \<open>opts.Metadata\<close> write to the object \<open>opts\<close> points to.
\<close>

definition prepare_options :: "AuthProvider \<Rightarrow> Request \<Rightarrow> opts_store \<Rightarrow> nat \<times> opts_store" where
  "prepare_options m r st =
     (if ValidateMethodPath m then
        (let (opts, st) = Clone st (TokenValidatorOptions m);
             st = st[opts := (st ! opts)\<lparr>TokenValidatorOptions.Metadata :=
                     (TokenValidatorOptions.Metadata (st ! opts))(''method'' \<mapsto> Method r)\<rparr>];
             st = st[opts := (st ! opts)\<lparr>TokenValidatorOptions.Metadata :=
                     (TokenValidatorOptions.Metadata (st ! opts))(''path'' \<mapsto> URL_Path r)\<rparr>]
         in (opts, st))
      else (TokenValidatorOptions m, st))"

text \<open>
  Lines 133 to 224 of plugin.go: the statements of \<open>Authenticate\<close> after the lazy
  bind, run on the per-call copy \<open>m\<close>.
\<close>

definition authorize_request ::
  "(Request \<Rightarrow> string \<Rightarrow> bool \<Rightarrow> string \<Rightarrow> string option) \<Rightarrow> AuthProvider \<Rightarrow> 'p state \<Rightarrow>
   (User \<times> bool \<times> error option) \<times> 'p state" where
  "authorize_request target m s =
     (let (opts, st) = prepare_options m (req s) (store s);
          (userClaims, validUser, err) = Authorize (TokenValidator m) (req s) (st ! opts);
          s = s\<lparr>store := st, trace := trace s @ [call_Authorize (req s) opts (st ! opts)]\<rparr>;
          w = resp s
      in
      case err of
        Some e \<Rightarrow>
          (let s = s\<lparr>trace := trace s @ [log_Debug ''token validation error'' [(''error'', Error e)]]\<rparr>
           in
           if Contains (Error e) forbidden_marker then
             (let w = (if ForbiddenURL m \<noteq> '''' then
                         WriteHeader (w\<lparr>headers := Header_Set (headers w) ''Location'' (ForbiddenURL m)\<rparr>) 303
                       else WriteHeader w 403);
                  w = Write w ''Forbidden''
              in ((User_zero, False, Some e), s\<lparr>resp := w\<rparr>))
           else
             (let w = purge_cookies w (Cookies (TokenValidator m));
                  w = addRedirectLocationHeader target w (req s) (AuthURLPath m)
                        (AuthRedirectQueryDisabled m) (AuthRedirectQueryParameter m);
                  w = WriteHeader w 302;
                  w = Write w ''Unauthorized''
              in ((User_zero, False, Some e), s\<lparr>resp := w\<rparr>)))
      | None \<Rightarrow>
          if \<not> validUser then
            (let s = s\<lparr>trace := trace s @ [log_Debug ''token validation error'' [(''error'', ''user invalid'')]]\<rparr>;
                 w = purge_cookies w (Cookies (TokenValidator m));
                 w = addRedirectLocationHeader target w (req s) (AuthURLPath m)
                       (AuthRedirectQueryDisabled m) (AuthRedirectQueryParameter m);
                 w = WriteHeader w 302;
                 w = Write w ''Unauthorized User''
             in ((User_zero, False, None), s\<lparr>resp := w\<rparr>))
          else
            (case userClaims of
               None \<Rightarrow>
                 (let s = s\<lparr>trace := trace s @ [log_Debug ''token validation error'' [(''error'', ''nil claims'')]]\<rparr>;
                      w = purge_cookies w (Cookies (TokenValidator m));
                      w = addRedirectLocationHeader target w (req s) (AuthURLPath m)
                            (AuthRedirectQueryDisabled m) (AuthRedirectQueryParameter m);
                      w = WriteHeader w 302;
                      w = Write w ''User Unauthorized''
                  in ((User_zero, False, None), s\<lparr>resp := w\<rparr>))
             | Some c \<Rightarrow>
                 (let userIdentity = \<lparr>ID = Email c, Metadata = [''roles'' \<mapsto> Join (Roles c) '' '']\<rparr>;
                      r = req s;
                      (userIdentity, r) =
                        (if UserClaims.Name c \<noteq> '''' then
                           (userIdentity\<lparr>Metadata := (Metadata userIdentity)(''name'' \<mapsto> UserClaims.Name c)\<rparr>,
                            if PassClaimsWithHeaders m then
                              r\<lparr>Header := Header_Set (Header r) ''X-Token-User-Name'' (UserClaims.Name c)\<rparr>
                            else r)
                         else (userIdentity, r));
                      (userIdentity, r) =
                        (if Email c \<noteq> '''' then
                           (userIdentity\<lparr>Metadata := (Metadata userIdentity)(''email'' \<mapsto> Email c)\<rparr>,
                            if PassClaimsWithHeaders m then
                              r\<lparr>Header := Header_Set (Header r) ''X-Token-User-Email'' (Email c)\<rparr>
                            else r)
                         else (userIdentity, r));
                      r = (if PassClaimsWithHeaders m then
                             (let r = (if length (Roles c) > 0 then
                                         r\<lparr>Header := Header_Set (Header r) ''X-Token-User-Roles'' (Join (Roles c) '' '')\<rparr>
                                       else r)
                              in if Subject c \<noteq> '''' then
                                   r\<lparr>Header := Header_Set (Header r) ''X-Token-Subject'' (Subject c)\<rparr>
                                 else r)
                           else r)
                  in ((userIdentity, True, None), s\<lparr>req := r\<rparr>))))"

text \<open>
  \<open>Authenticate\<close>, lines 111 to 131 and then the rest on the bound configuration.
  The receiver \<open>m\<close> is a value: the assignment \<open>m = *provisionedInstance\<close> changes
  the local \<open>m\<close> of the call.  \<open>ProviderPool.Provision\<close> is declared outside
  plugin.go and is the parameter \<open>Provision\<close>: from the pool and a name it yields
  the error or the provisioned instance, and the pool after the call.
\<close>

definition Authenticate ::
  "('p \<Rightarrow> string \<Rightarrow> (error + AuthProvider) \<times> 'p) \<Rightarrow>
   (Request \<Rightarrow> string \<Rightarrow> bool \<Rightarrow> string \<Rightarrow> string option) \<Rightarrow> AuthProvider \<Rightarrow> 'p state \<Rightarrow>
   (User \<times> bool \<times> error option) \<times> 'p state" where
  "Authenticate Provision target m s =
     (if ProvisionFailed m then
        (let w = WriteHeader (resp s) 500;
             w = Write w ''Internal Server Error''
         in ((User_zero, False, Some (strError ErrProvisonFailed)), s\<lparr>resp := w\<rparr>))
      else if \<not> Provisioned m then
        (let (res, p) = Provision (pool s) (Name m);
             s = s\<lparr>pool := p, trace := trace s @ [call_Provision (Name m)]\<rparr>
         in
         case res of
           Inl err \<Rightarrow>
             (let s = s\<lparr>trace := trace s @
                        [log_Error ''authorization provider provisioning error''
                           [(''instance_name'', Name m), (''error'', Error err)]]\<rparr>;
                  w = WriteHeader (resp s) 500;
                  w = Write w ''Internal Server Error''
              in ((User_zero, False, Some err), s\<lparr>resp := w\<rparr>))
         | Inr provisionedInstance \<Rightarrow> authorize_request target provisionedInstance s)
      else authorize_request target m s)"

text \<open>
  A call \<open>m.Authenticate(w, r)\<close> on a provider instance.  The method has a value
  receiver (line 111): the call runs on a copy of the instance as it is when the
  call starts.  The instance is an object the pool can reach, since \<open>Provision\<close>
  of the provider registers the pointer to it (line 85); \<open>instance\<close> reads the
  object from the state of the pool.
\<close>

definition Authenticate_on ::
  "('p \<Rightarrow> string \<Rightarrow> (error + AuthProvider) \<times> 'p) \<Rightarrow>
   (Request \<Rightarrow> string \<Rightarrow> bool \<Rightarrow> string \<Rightarrow> string option) \<Rightarrow> ('p \<Rightarrow> AuthProvider) \<Rightarrow> 'p state \<Rightarrow>
   (User \<times> bool \<times> error option) \<times> 'p state" where
  "Authenticate_on Provision target instance s =
     Authenticate Provision target (instance (pool s)) s"

section \<open>Notions used to state the properties\<close>

text \<open>
  The configuration a call runs on from line 133, and the state at that point:
  none if the instance failed provisioning or the pool returns an error, the
  receiver itself if it is provisioned, and else the instance the pool returns.
\<close>

definition bind_provider ::
  "('p \<Rightarrow> string \<Rightarrow> (error + AuthProvider) \<times> 'p) \<Rightarrow> AuthProvider \<Rightarrow> 'p state \<Rightarrow>
   (AuthProvider \<times> 'p state) option" where
  "bind_provider Provision m s =
     (if ProvisionFailed m then None
      else if Provisioned m then Some (m, s)
      else (case Provision (pool s) (Name m) of
              (Inl err, p) \<Rightarrow> None
            | (Inr provisionedInstance, p) \<Rightarrow>
                Some (provisionedInstance, s\<lparr>pool := p, trace := trace s @ [call_Provision (Name m)]\<rparr>)))"

text \<open>
  The response of the validation-error path with a given body: the cookies are
  purged, the redirect header is attached, the status is 302.
\<close>

definition unauthorized_response ::
  "(Request \<Rightarrow> string \<Rightarrow> bool \<Rightarrow> string \<Rightarrow> string option) \<Rightarrow> AuthProvider \<Rightarrow>
   ResponseWriter \<Rightarrow> Request \<Rightarrow> string \<Rightarrow> ResponseWriter" where
  "unauthorized_response target m w r body =
     Write (WriteHeader
              (addRedirectLocationHeader target (purge_cookies w (Cookies (TokenValidator m))) r
                 (AuthURLPath m) (AuthRedirectQueryDisabled m) (AuthRedirectQueryParameter m))
              302) body"

text \<open>
  The terminal outcomes of the spec's per-request state machine, and the outcome
  that the spec's conditions assign to a call.
\<close>

datatype outcome =
  ProvisioningFailure | Forbidden | ValidationError | InvalidUser | NilClaims | Success

definition outcome_of ::
  "('p \<Rightarrow> string \<Rightarrow> (error + AuthProvider) \<times> 'p) \<Rightarrow> AuthProvider \<Rightarrow> 'p state \<Rightarrow> outcome" where
  "outcome_of Provision m s =
     (case bind_provider Provision m s of
        None \<Rightarrow> ProvisioningFailure
      | Some (m', s') \<Rightarrow>
          (let (opts, st) = prepare_options m' (req s') (store s');
               (userClaims, validUser, err) = Authorize (TokenValidator m') (req s') (st ! opts)
           in case err of
                Some e \<Rightarrow> if Contains (Error e) forbidden_marker then Forbidden else ValidationError
              | None \<Rightarrow>
                  if \<not> validUser then InvalidUser
                  else if userClaims = None then NilClaims
                  else Success))"

text \<open>The body the spec's table of responses gives each outcome; none on success.\<close>

fun outcome_body :: "outcome \<Rightarrow> string list" where
  "outcome_body ProvisioningFailure = [''Internal Server Error'']"
| "outcome_body Forbidden = [''Forbidden'']"
| "outcome_body ValidationError = [''Unauthorized'']"
| "outcome_body InvalidUser = [''Unauthorized User'']"
| "outcome_body NilClaims = [''User Unauthorized'']"
| "outcome_body Success = []"

text \<open>The status codes the spec's table allows each outcome; none on success.\<close>

fun outcome_statuses :: "outcome \<Rightarrow> nat list" where
  "outcome_statuses ProvisioningFailure = [500]"
| "outcome_statuses Forbidden = [303, 403]"
| "outcome_statuses ValidationError = [302]"
| "outcome_statuses InvalidUser = [302]"
| "outcome_statuses NilClaims = [302]"
| "outcome_statuses Success = []"

text \<open>The names with which a list of events calls \<open>ProviderPool.Provision\<close>.\<close>

fun provision_calls :: "event list \<Rightarrow> string list" where
  "provision_calls [] = []"
| "provision_calls (call_Provision name # es) = name # provision_calls es"
| "provision_calls (e # es) = provision_calls es"

text \<open>The validator calls of a list of events: the options pointer and the options.\<close>

fun authorize_calls :: "event list \<Rightarrow> (nat \<times> TokenValidatorOptions) list" where
  "authorize_calls [] = []"
| "authorize_calls (call_Authorize r a opts # es) = (a, opts) # authorize_calls es"
| "authorize_calls (e # es) = authorize_calls es"

text \<open>
  Modelled from the spec: \<open>AuthProviderPool\<close> and its method \<open>Provision\<close> are
  declared outside plugin.go.  By the spec the registry maps a policy name to its
  configuration; \<open>Provision\<close> returns a provisioned entry as it is, and for an
  entry not yet provisioned it performs the one-time setup and marks the entry
  provisioned, or marks it failed for good if the setup fails, after which every
  call fails with the provisioning error.  The setup is the parameter \<open>setup\<close>
  (\<open>None\<close> when it fails).  The spec does not say what a name without an entry
  gives; the model fails it with the provisioning error and leaves the registry
  as it is.
\<close>

type_synonym AuthProviderPool = "string \<rightharpoonup> AuthProvider"

definition pool_Provision ::
  "(AuthProvider \<Rightarrow> AuthProvider option) \<Rightarrow> AuthProviderPool \<Rightarrow> string \<Rightarrow>
   (error + AuthProvider) \<times> AuthProviderPool" where
  "pool_Provision setup p name =
     (case p name of
        None \<Rightarrow> (Inl (strError ErrProvisonFailed), p)
      | Some entry \<Rightarrow>
          if Provisioned entry then (Inr entry, p)
          else if ProvisionFailed entry then (Inl (strError ErrProvisonFailed), p)
          else (case setup entry of
                  None \<Rightarrow> (Inl (strError ErrProvisonFailed), p(name \<mapsto> entry\<lparr>ProvisionFailed := True\<rparr>))
                | Some entry' \<Rightarrow>
                    (Inr (entry'\<lparr>Provisioned := True\<rparr>), p(name \<mapsto> entry'\<lparr>Provisioned := True\<rparr>))))"

section \<open>Concrete inputs\<close>

text \<open>
  A policy named \<open>example\<close> with two cookie names, a validator that answers every
  request with a fixed result, a request and an empty response writer; the claim
  set of the spec's example, which has an email and two roles, and one with every
  field set.
\<close>

definition example_validator :: "UserClaims option \<times> bool \<times> error option \<Rightarrow> TokenValidator" where
  "example_validator res =
     \<lparr>Cookies = [''access_token'', ''jwt_access_token''], Authorize = (\<lambda>r opts. res)\<rparr>"

definition example_provider :: "UserClaims option \<times> bool \<times> error option \<Rightarrow> AuthProvider" where
  "example_provider res =
     \<lparr>Name = ''example'', Provisioned = True, ProvisionFailed = False, Context = ''default'',
      PrimaryInstance = True, AuthURLPath = ''/auth'', AuthRedirectQueryDisabled = False,
      AuthRedirectQueryParameter = ''redirect_url'', TokenValidator = example_validator res,
      TokenValidatorOptions = 0, AllowedTokenTypes = [], AllowedTokenSources = [],
      PassClaims = False, StripToken = False, ForbiddenURL = ''/forbidden'',
      ValidateMethodPath = True, ValidateAccessListPathClaim = False,
      PassClaimsWithHeaders = True\<rparr>"

definition example_target :: "Request \<Rightarrow> string \<Rightarrow> bool \<Rightarrow> string \<Rightarrow> string option" where
  "example_target r authURLPath disabled param =
     Some (if disabled then authURLPath else authURLPath @ ''?'' @ param @ ''='' @ RequestURI r)"

definition example_request :: Request where
  "example_request = \<lparr>Method = ''GET'', URL_Path = ''/app'', RequestURI = ''/app'', Header = Map.empty\<rparr>"

definition example_writer :: ResponseWriter where
  "example_writer = \<lparr>headers = Map.empty, statuses = [], bodies = []\<rparr>"

definition example_state :: "AuthProviderPool \<Rightarrow> AuthProviderPool state" where
  "example_state p =
     \<lparr>resp = example_writer, req = example_request, pool = p,
      store = [\<lparr>TokenValidatorOptions.Metadata = Map.empty\<rparr>], trace = []\<rparr>"

definition example_claims :: UserClaims where
  "example_claims = \<lparr>Subject = '''', Email = ''a@b.com'', Name = '''', Roles = [''admin'', ''user'']\<rparr>"

definition full_claims :: UserClaims where
  "full_claims = \<lparr>Subject = ''ab'', Email = ''a@b.com'', Name = ''A B'', Roles = [''admin'', ''user'']\<rparr>"

definition forbidden_error :: error where
  "forbidden_error = strError ''user role is valid, but not allowed by access list''"

definition expired_error :: error where
  "expired_error = strError ''token expired''"

definition example_methods :: "string \<rightharpoonup> unit" where
  "example_methods = [''HS256'' \<mapsto> (), ''HS384'' \<mapsto> (), ''HS512'' \<mapsto> ()]"

definition example_GetToken :: "UserClaims \<Rightarrow> string \<Rightarrow> string \<Rightarrow> string \<times> error option" where
  "example_GetToken c method secret = (method @ ''.'' @ Email c @ ''.'' @ secret, None)"

text \<open>
  The same policy before provisioning, and a registry that holds it under its
  name.
\<close>

definition unprovisioned_provider :: "UserClaims option \<times> bool \<times> error option \<Rightarrow> AuthProvider" where
  "unprovisioned_provider res = (example_provider res)\<lparr>Provisioned := False\<rparr>"

definition example_pool :: "UserClaims option \<times> bool \<times> error option \<Rightarrow> AuthProviderPool" where
  "example_pool res = [''example'' \<mapsto> unprovisioned_provider res]"

text \<open>
  Configured options with an entry of their own, a state whose store holds them,
  the policy after its provisioning has failed, and the instance of the policy as
  the registry holds it (as configured, when the registry has no entry yet).
\<close>

definition example_options :: TokenValidatorOptions where
  "example_options = \<lparr>TokenValidatorOptions.Metadata = [''realm'' \<mapsto> ''local'']\<rparr>"

definition example_state_with_options :: "AuthProviderPool state" where
  "example_state_with_options = (example_state Map.empty)\<lparr>store := [example_options]\<rparr>"

definition failed_provider :: "UserClaims option \<times> bool \<times> error option \<Rightarrow> AuthProvider" where
  "failed_provider res = (unprovisioned_provider res)\<lparr>ProvisionFailed := True\<rparr>"

definition registered_example ::
  "UserClaims option \<times> bool \<times> error option \<Rightarrow> AuthProviderPool \<Rightarrow> AuthProvider" where
  "registered_example res p =
     (case p ''example'' of Some entry \<Rightarrow> entry | None \<Rightarrow> unprovisioned_provider res)"

section \<open>Auxiliary facts\<close>

lemmas example_defs =
  example_validator_def example_provider_def example_target_def example_request_def
  example_writer_def example_state_def example_claims_def full_claims_def
  forbidden_error_def expired_error_def forbidden_marker_def

subsection \<open>The cookie loop and the unauthorized response\<close>

lemma purge_cookies_statuses: "statuses (purge_cookies w ks) = statuses w"
  by (induction ks arbitrary: w) simp_all

lemma purge_cookies_bodies: "bodies (purge_cookies w ks) = bodies w"
  by (induction ks arbitrary: w) simp_all

lemma purge_cookies_other: "k \<noteq> ''Set-Cookie'' \<Longrightarrow> headers (purge_cookies w ks) k = headers w k"
  by (induction ks arbitrary: w) (simp_all add: Header_Add_def)

lemma purge_cookies_values:
  "Header_Values (headers (purge_cookies w ks)) ''Set-Cookie'' =
     Header_Values (headers w) ''Set-Cookie'' @ map expire_cookie ks"
  by (induction ks arbitrary: w) (simp_all add: Header_Add_def Header_Values_def)

lemma unauthorized_response_statuses:
  "statuses (unauthorized_response target m w r body) = statuses w @ [302]"
  by (simp add: unauthorized_response_def Write_def WriteHeader_def addRedirectLocationHeader_def
        purge_cookies_statuses split: option.splits)

lemma unauthorized_response_bodies:
  "bodies (unauthorized_response target m w r body) = bodies w @ [body]"
  by (simp add: unauthorized_response_def Write_def WriteHeader_def addRedirectLocationHeader_def
        purge_cookies_bodies split: option.splits)

lemma unauthorized_response_cookies:
  "Header_Values (headers (unauthorized_response target m w r body)) ''Set-Cookie'' =
     Header_Values (headers w) ''Set-Cookie'' @ map expire_cookie (Cookies (TokenValidator m))"
  using purge_cookies_values [of w "Cookies (TokenValidator m)"]
  by (simp add: unauthorized_response_def Write_def WriteHeader_def addRedirectLocationHeader_def
        Header_Set_def Header_Values_def split: option.splits)

lemma unauthorized_response_location:
  "headers (unauthorized_response target m w r body) ''Location'' =
     (case target r (AuthURLPath m) (AuthRedirectQueryDisabled m) (AuthRedirectQueryParameter m) of
        None \<Rightarrow> headers w ''Location''
      | Some v \<Rightarrow> Some [v])"
  by (simp add: unauthorized_response_def Write_def WriteHeader_def addRedirectLocationHeader_def
        Header_Set_def purge_cookies_other split: option.splits)

lemma unauthorized_response_other:
  "k \<noteq> ''Set-Cookie'' \<Longrightarrow> k \<noteq> ''Location'' \<Longrightarrow>
   headers (unauthorized_response target m w r body) k = headers w k"
  by (simp add: unauthorized_response_def Write_def WriteHeader_def addRedirectLocationHeader_def
        Header_Set_def purge_cookies_other split: option.splits)

lemma count_expire_cookie:
  "distinct ks \<Longrightarrow> k \<in> set ks \<Longrightarrow> count_list (map expire_cookie ks) (expire_cookie k) = 1"
  by (induction ks) (auto simp: expire_cookie_def image_iff count_list_0_iff)

subsection \<open>Events\<close>

lemma provision_calls_append: "provision_calls (xs @ ys) = provision_calls xs @ provision_calls ys"
  by (induction xs rule: provision_calls.induct) simp_all

lemma authorize_calls_append: "authorize_calls (xs @ ys) = authorize_calls xs @ authorize_calls ys"
  by (induction xs rule: authorize_calls.induct) simp_all

subsection \<open>The lazy bind\<close>

lemma Authenticate_bound:
  "bind_provider Provision m s = Some (m', s') \<Longrightarrow>
   Authenticate Provision target m s = authorize_request target m' s'"
  by (auto simp: bind_provider_def Authenticate_def Let_def split: if_splits prod.splits sum.splits)

lemma bind_provider_frame:
  "bind_provider Provision m s = Some (m', s') \<Longrightarrow>
   resp s' = resp s \<and> req s' = req s \<and> store s' = store s \<and>
   authorize_calls (trace s') = authorize_calls (trace s)"
  by (auto simp: bind_provider_def authorize_calls_append split: if_splits prod.splits sum.splits)

lemma Authenticate_unbound:
  assumes "bind_provider Provision m s = None"
      and "Authenticate Provision target m s = (ret, s'')"
  shows "statuses (resp s'') = statuses (resp s) @ [500] \<and>
         bodies (resp s'') = bodies (resp s) @ [''Internal Server Error''] \<and>
         \<not> fst (snd ret)"
  using assms
  by (auto simp: bind_provider_def Authenticate_def Let_def Write_def WriteHeader_def
           split: if_splits prod.splits sum.splits)

subsection \<open>The branches after the validator call\<close>

lemma authorize_request_forbidden:
  assumes "prepare_options m (req s) (store s) = (opts, st)"
      and "Authorize (TokenValidator m) (req s) (st ! opts) = (uc, vu, Some e)"
      and "Contains (Error e) forbidden_marker"
  shows "authorize_request target m s =
     ((User_zero, False, Some e),
      s\<lparr>store := st,
        trace := trace s @ [call_Authorize (req s) opts (st ! opts),
                            log_Debug ''token validation error'' [(''error'', Error e)]],
        resp := Write (if ForbiddenURL m \<noteq> '''' then
                         WriteHeader ((resp s)\<lparr>headers := Header_Set (headers (resp s)) ''Location'' (ForbiddenURL m)\<rparr>) 303
                       else WriteHeader (resp s) 403) ''Forbidden''\<rparr>)"
  using assms by (simp add: authorize_request_def Let_def)

lemma authorize_request_error:
  assumes "prepare_options m (req s) (store s) = (opts, st)"
      and "Authorize (TokenValidator m) (req s) (st ! opts) = (uc, vu, Some e)"
      and "\<not> Contains (Error e) forbidden_marker"
  shows "authorize_request target m s =
     ((User_zero, False, Some e),
      s\<lparr>store := st,
        trace := trace s @ [call_Authorize (req s) opts (st ! opts),
                            log_Debug ''token validation error'' [(''error'', Error e)]],
        resp := unauthorized_response target m (resp s) (req s) ''Unauthorized''\<rparr>)"
  using assms by (simp add: authorize_request_def Let_def unauthorized_response_def)

lemma authorize_request_invalid_user:
  assumes "prepare_options m (req s) (store s) = (opts, st)"
      and "Authorize (TokenValidator m) (req s) (st ! opts) = (uc, False, None)"
  shows "authorize_request target m s =
     ((User_zero, False, None),
      s\<lparr>store := st,
        trace := trace s @ [call_Authorize (req s) opts (st ! opts),
                            log_Debug ''token validation error'' [(''error'', ''user invalid'')]],
        resp := unauthorized_response target m (resp s) (req s) ''Unauthorized User''\<rparr>)"
  using assms by (simp add: authorize_request_def Let_def unauthorized_response_def)

lemma authorize_request_nil_claims:
  assumes "prepare_options m (req s) (store s) = (opts, st)"
      and "Authorize (TokenValidator m) (req s) (st ! opts) = (None, True, None)"
  shows "authorize_request target m s =
     ((User_zero, False, None),
      s\<lparr>store := st,
        trace := trace s @ [call_Authorize (req s) opts (st ! opts),
                            log_Debug ''token validation error'' [(''error'', ''nil claims'')]],
        resp := unauthorized_response target m (resp s) (req s) ''User Unauthorized''\<rparr>)"
  using assms by (simp add: authorize_request_def Let_def unauthorized_response_def)

lemma authorize_request_success:
  assumes "prepare_options m (req s) (store s) = (opts, st)"
      and "Authorize (TokenValidator m) (req s) (st ! opts) = (Some c, True, None)"
      and "authorize_request target m s = (ret, s'')"
  shows "ID (fst ret) = Email c"
    and "Metadata (fst ret) ''roles'' = Some (Join (Roles c) '' '')"
    and "snd ret = (True, None)"
    and "resp s'' = resp s"
    and "store s'' = st"
    and "pool s'' = pool s"
    and "trace s'' = trace s @ [call_Authorize (req s) opts (st ! opts)]"
    and "\<not> PassClaimsWithHeaders m \<Longrightarrow> req s'' = req s"
    and "req s'' = (req s)\<lparr>Header := Header (req s'')\<rparr>"
  using assms by (auto simp: authorize_request_def Let_def split: if_splits)

lemma authorize_request_success_headers:
  assumes "prepare_options m (req s) (store s) = (opts, st)"
      and "Authorize (TokenValidator m) (req s) (st ! opts) = (Some c, True, None)"
      and "authorize_request target m s = (ret, s'')"
      and "PassClaimsWithHeaders m"
  shows "Header (req s'') ''X-Token-User-Name'' =
           (if UserClaims.Name c \<noteq> '''' then Some [UserClaims.Name c]
            else Header (req s) ''X-Token-User-Name'')"
    and "Header (req s'') ''X-Token-User-Email'' =
           (if Email c \<noteq> '''' then Some [Email c] else Header (req s) ''X-Token-User-Email'')"
    and "Header (req s'') ''X-Token-User-Roles'' =
           (if Roles c \<noteq> [] then Some [Join (Roles c) '' '']
            else Header (req s) ''X-Token-User-Roles'')"
    and "Header (req s'') ''X-Token-Subject'' =
           (if Subject c \<noteq> '''' then Some [Subject c] else Header (req s) ''X-Token-Subject'')"
    and "k \<noteq> ''X-Token-User-Name'' \<Longrightarrow> k \<noteq> ''X-Token-User-Email'' \<Longrightarrow>
         k \<noteq> ''X-Token-User-Roles'' \<Longrightarrow> k \<noteq> ''X-Token-Subject'' \<Longrightarrow>
         Header (req s'') k = Header (req s) k"
  using assms by (auto simp: authorize_request_def Let_def Header_Set_def split: if_splits)

subsection \<open>What every branch leaves alone\<close>

lemma prepare_options_clone:
  "ValidateMethodPath m \<Longrightarrow>
   prepare_options m r st =
     (length st,
      st @ [(st ! TokenValidatorOptions m)\<lparr>TokenValidatorOptions.Metadata :=
              (TokenValidatorOptions.Metadata (st ! TokenValidatorOptions m))
                (''method'' \<mapsto> Method r, ''path'' \<mapsto> URL_Path r)\<rparr>])"
  by (simp add: prepare_options_def Clone_def Let_def)

lemma prepare_options_extends:
  "prepare_options m r st = (opts, st') \<Longrightarrow> take (length st) st' = st"
  by (cases "ValidateMethodPath m") (auto simp: prepare_options_clone, simp add: prepare_options_def)

lemma authorize_request_frame:
  assumes p: "prepare_options m (req s) (store s) = (opts, st)"
      and a: "authorize_request target m s = (ret, s'')"
  shows "store s'' = st \<and> pool s'' = pool s \<and>
         authorize_calls (trace s'') = authorize_calls (trace s) @ [(opts, st ! opts)] \<and>
         provision_calls (trace s'') = provision_calls (trace s)"
proof -
  obtain uc vu err where r: "Authorize (TokenValidator m) (req s) (st ! opts) = (uc, vu, err)"
    using prod_cases3 by blast
  show ?thesis
  proof (cases err)
    case (Some e)
    show ?thesis
    proof (cases "Contains (Error e) forbidden_marker")
      case True
      then show ?thesis
        using authorize_request_forbidden [OF p, of uc vu e target] r Some a
        by (auto simp: authorize_calls_append provision_calls_append)
    next
      case False
      then show ?thesis
        using authorize_request_error [OF p, of uc vu e target] r Some a
        by (auto simp: authorize_calls_append provision_calls_append)
    qed
  next
    case None
    show ?thesis
    proof (cases vu)
      case False
      then show ?thesis
        using authorize_request_invalid_user [OF p, of uc target] r None a
        by (auto simp: authorize_calls_append provision_calls_append)
    next
      case True
      show ?thesis
      proof (cases uc)
        case None': None
        then show ?thesis
          using authorize_request_nil_claims [OF p, of target] r None True a
          by (auto simp: authorize_calls_append provision_calls_append)
      next
        case (Some c)
        then show ?thesis
          using authorize_request_success(5,6,7) [OF p _ a, of c] r None True
          by (auto simp: authorize_calls_append provision_calls_append)
      qed
    qed
  qed
qed

section \<open>The claims\<close>

text \<open>
  In the statements below \<open>m'\<close> and \<open>s'\<close> are the configuration and the state with
  which the call reaches the validator (\<open>bind_provider\<close>), \<open>opts\<close> and \<open>st\<close> the
  options pointer and the store of line 142, and \<open>ret\<close> and \<open>s''\<close> what the call
  returns and the state it leaves.
\<close>

text \<open>
  C1.  If the validator returns an error whose message contains the forbidden-role
  marker, the call appends status 303 and sets the \<open>Location\<close> header to the
  configured \<open>ForbiddenURL\<close> when that URL is not empty, and appends status 403
  and leaves the headers as they are when it is empty; in both cases it writes the
  body \<open>Forbidden\<close>, changes nothing else of the response, and returns the
  validator's error.
\<close>

theorem Authenticate_forbidden:
  assumes "bind_provider Provision m s = Some (m', s')"
      and "prepare_options m' (req s) (store s) = (opts, st)"
      and "Authorize (TokenValidator m') (req s) (st ! opts) = (uc, vu, Some e)"
      and "Contains (Error e) forbidden_marker"
      and "Authenticate Provision target m s = (ret, s'')"
  shows "ret = (User_zero, False, Some e) \<and>
         resp s'' =
           (if ForbiddenURL m' \<noteq> '''' then
              (resp s)\<lparr>headers := (headers (resp s))(''Location'' \<mapsto> [ForbiddenURL m']),
                       statuses := statuses (resp s) @ [303],
                       bodies := bodies (resp s) @ [''Forbidden'']\<rparr>
            else
              (resp s)\<lparr>statuses := statuses (resp s) @ [403],
                       bodies := bodies (resp s) @ [''Forbidden'']\<rparr>)"
proof -
  from assms(1) have fr: "resp s' = resp s" "req s' = req s" "store s' = store s"
    using bind_provider_frame by blast+
  have "authorize_request target m' s' = (ret, s'')"
    using Authenticate_bound [OF assms(1)] assms(5) by simp
  then show ?thesis
    using authorize_request_forbidden [of m' s' opts st uc vu e target] assms(2-4) fr
    by (auto simp: Write_def WriteHeader_def Header_Set_def)
qed

theorem Authenticate_forbidden_witness:
  "bind_provider (pool_Provision Some) (example_provider (None, False, Some forbidden_error))
     (example_state Map.empty)
     = Some (example_provider (None, False, Some forbidden_error), example_state Map.empty) \<and>
   Contains (Error forbidden_error) forbidden_marker \<and>
   fst (Authenticate (pool_Provision Some) example_target
          (example_provider (None, False, Some forbidden_error)) (example_state Map.empty))
     = (User_zero, False, Some forbidden_error) \<and>
   resp (snd (Authenticate (pool_Provision Some) example_target
          (example_provider (None, False, Some forbidden_error)) (example_state Map.empty)))
     = \<lparr>headers = [''Location'' \<mapsto> [''/forbidden'']], statuses = [303], bodies = [''Forbidden'']\<rparr>"
proof -
  let ?m = "example_provider (None, False, Some forbidden_error)"
  let ?s = "example_state Map.empty"
  let ?P = "pool_Provision Some"
  let ?po = "prepare_options ?m (req ?s) (store ?s)"
  have h1: "bind_provider ?P ?m ?s = Some (?m, ?s)"
    by (simp add: bind_provider_def example_provider_def)
  have h2: "?po = (fst ?po, snd ?po)"
    by simp
  have h3: "Authorize (TokenValidator ?m) (req ?s) (snd ?po ! fst ?po) = (None, False, Some forbidden_error)"
    by (simp add: example_provider_def example_validator_def)
  have h4: "Contains (Error forbidden_error) forbidden_marker"
    by (simp add: forbidden_error_def forbidden_marker_def)
  have h5: "Authenticate ?P example_target ?m ?s
              = (fst (Authenticate ?P example_target ?m ?s), snd (Authenticate ?P example_target ?m ?s))"
    by simp
  have url: "ForbiddenURL ?m = ''/forbidden''"
    by (simp add: example_provider_def)
  have w: "resp ?s = \<lparr>headers = Map.empty, statuses = [], bodies = []\<rparr>"
    by (simp add: example_state_def example_writer_def)
  show ?thesis
    using h1 h4 Authenticate_forbidden [OF h1 h2 h3 h4 h5]
    by (simp add: url w)
qed

text \<open>
  C2.  If the validator returns an error whose message does not contain the
  forbidden-role marker, the call appends status 302, writes the body
  \<open>Unauthorized\<close> and returns that error.  To the values of \<open>Set-Cookie\<close> it
  appends \<open><name>=delete; path=/; expires=Thu, 01 Jan 1970 00:00:00 GMT\<close> for the
  cookie names of the token validator, each name once (the names are the keys of
  a map, hence distinct); the \<open>Location\<close> header is the redirect target when the
  redirect helper attaches one; no other header changes.
\<close>

theorem Authenticate_validation_error:
  assumes "bind_provider Provision m s = Some (m', s')"
      and "prepare_options m' (req s) (store s) = (opts, st)"
      and "Authorize (TokenValidator m') (req s) (st ! opts) = (uc, vu, Some e)"
      and "\<not> Contains (Error e) forbidden_marker"
      and "distinct (Cookies (TokenValidator m'))"
      and "Authenticate Provision target m s = (ret, s'')"
  shows "ret = (User_zero, False, Some e) \<and>
         resp s'' = unauthorized_response target m' (resp s) (req s) ''Unauthorized'' \<and>
         statuses (resp s'') = statuses (resp s) @ [302] \<and>
         bodies (resp s'') = bodies (resp s) @ [''Unauthorized''] \<and>
         Header_Values (headers (resp s'')) ''Set-Cookie'' =
           Header_Values (headers (resp s)) ''Set-Cookie'' @
           map expire_cookie (Cookies (TokenValidator m')) \<and>
         (\<forall>k \<in> set (Cookies (TokenValidator m')).
            expire_cookie k = k @ ''=delete; path=/; expires=Thu, 01 Jan 1970 00:00:00 GMT'' \<and>
            count_list (map expire_cookie (Cookies (TokenValidator m'))) (expire_cookie k) = 1) \<and>
         headers (resp s'') ''Location'' =
           (case target (req s) (AuthURLPath m') (AuthRedirectQueryDisabled m')
                   (AuthRedirectQueryParameter m') of
              None \<Rightarrow> headers (resp s) ''Location''
            | Some v \<Rightarrow> Some [v]) \<and>
         (\<forall>k. k \<noteq> ''Set-Cookie'' \<and> k \<noteq> ''Location'' \<longrightarrow>
              headers (resp s'') k = headers (resp s) k)"
proof -
  from assms(1) have fr: "resp s' = resp s" "req s' = req s" "store s' = store s"
    using bind_provider_frame by blast+
  have "authorize_request target m' s' = (ret, s'')"
    using Authenticate_bound [OF assms(1)] assms(6) by simp
  then have r: "ret = (User_zero, False, Some e)"
    and w: "resp s'' = unauthorized_response target m' (resp s) (req s) ''Unauthorized''"
    using authorize_request_error [of m' s' opts st uc vu e target] assms(2-4) fr by auto
  have c: "\<forall>k \<in> set (Cookies (TokenValidator m')).
            expire_cookie k = k @ ''=delete; path=/; expires=Thu, 01 Jan 1970 00:00:00 GMT'' \<and>
            count_list (map expire_cookie (Cookies (TokenValidator m'))) (expire_cookie k) = 1"
  proof
    fix k assume "k \<in> set (Cookies (TokenValidator m'))"
    then have "count_list (map expire_cookie (Cookies (TokenValidator m'))) (expire_cookie k) = 1"
      using count_expire_cookie [OF assms(5)] by simp
    moreover have "expire_cookie k = k @ ''=delete; path=/; expires=Thu, 01 Jan 1970 00:00:00 GMT''"
      by (simp only: expire_cookie_def)
    ultimately show "expire_cookie k = k @ ''=delete; path=/; expires=Thu, 01 Jan 1970 00:00:00 GMT'' \<and>
            count_list (map expire_cookie (Cookies (TokenValidator m'))) (expire_cookie k) = 1"
      by (rule conjI [rotated])
  qed
  have st: "statuses (resp s'') = statuses (resp s) @ [302]"
    by (simp only: w unauthorized_response_statuses)
  have bo: "bodies (resp s'') = bodies (resp s) @ [''Unauthorized'']"
    by (simp only: w unauthorized_response_bodies)
  have co: "Header_Values (headers (resp s'')) ''Set-Cookie'' =
              Header_Values (headers (resp s)) ''Set-Cookie'' @
              map expire_cookie (Cookies (TokenValidator m'))"
    by (simp only: w unauthorized_response_cookies)
  have lo: "headers (resp s'') ''Location'' =
              (case target (req s) (AuthURLPath m') (AuthRedirectQueryDisabled m')
                      (AuthRedirectQueryParameter m') of
                 None \<Rightarrow> headers (resp s) ''Location''
               | Some v \<Rightarrow> Some [v])"
    by (simp only: w unauthorized_response_location)
  have ot: "\<forall>k. k \<noteq> ''Set-Cookie'' \<and> k \<noteq> ''Location'' \<longrightarrow>
              headers (resp s'') k = headers (resp s) k"
    using unauthorized_response_other [of _ target m' "resp s" "req s" "''Unauthorized''"]
    by (simp only: w) blast
  from r w st bo co c lo ot show ?thesis
    by (intro conjI)
qed

theorem Authenticate_validation_error_witness:
  "bind_provider (pool_Provision Some) (example_provider (None, False, Some expired_error))
     (example_state Map.empty)
     = Some (example_provider (None, False, Some expired_error), example_state Map.empty) \<and>
   \<not> Contains (Error expired_error) forbidden_marker \<and>
   distinct (Cookies (TokenValidator (example_provider (None, False, Some expired_error)))) \<and>
   fst (Authenticate (pool_Provision Some) example_target
          (example_provider (None, False, Some expired_error)) (example_state Map.empty))
     = (User_zero, False, Some expired_error) \<and>
   statuses (resp (snd (Authenticate (pool_Provision Some) example_target
          (example_provider (None, False, Some expired_error)) (example_state Map.empty)))) = [302] \<and>
   bodies (resp (snd (Authenticate (pool_Provision Some) example_target
          (example_provider (None, False, Some expired_error)) (example_state Map.empty))))
     = [''Unauthorized''] \<and>
   Header_Values (headers (resp (snd (Authenticate (pool_Provision Some) example_target
          (example_provider (None, False, Some expired_error)) (example_state Map.empty)))))
       ''Set-Cookie''
     = [''access_token=delete; path=/; expires=Thu, 01 Jan 1970 00:00:00 GMT'',
        ''jwt_access_token=delete; path=/; expires=Thu, 01 Jan 1970 00:00:00 GMT''] \<and>
   headers (resp (snd (Authenticate (pool_Provision Some) example_target
          (example_provider (None, False, Some expired_error)) (example_state Map.empty))))
       ''Location''
     = Some [''/auth?redirect_url=/app'']"
proof -
  let ?m = "example_provider (None, False, Some expired_error)"
  let ?s = "example_state Map.empty"
  let ?P = "pool_Provision Some"
  let ?po = "prepare_options ?m (req ?s) (store ?s)"
  have h1: "bind_provider ?P ?m ?s = Some (?m, ?s)"
    by (simp add: bind_provider_def example_provider_def)
  have h2: "?po = (fst ?po, snd ?po)"
    by simp
  have h3: "Authorize (TokenValidator ?m) (req ?s) (snd ?po ! fst ?po) = (None, False, Some expired_error)"
    by (simp add: example_provider_def example_validator_def)
  have h4: "\<not> Contains (Error expired_error) forbidden_marker"
    by (simp add: expired_error_def forbidden_marker_def)
  have h5: "distinct (Cookies (TokenValidator ?m))"
    by (simp add: example_provider_def example_validator_def)
  have h6: "Authenticate ?P example_target ?m ?s
              = (fst (Authenticate ?P example_target ?m ?s), snd (Authenticate ?P example_target ?m ?s))"
    by simp
  have w: "Header_Values (headers (resp ?s)) ''Set-Cookie'' = []" "statuses (resp ?s) = []"
    "bodies (resp ?s) = []"
    by (simp_all add: example_state_def example_writer_def Header_Values_def)
  have c: "map expire_cookie (Cookies (TokenValidator ?m))
             = [''access_token=delete; path=/; expires=Thu, 01 Jan 1970 00:00:00 GMT'',
                ''jwt_access_token=delete; path=/; expires=Thu, 01 Jan 1970 00:00:00 GMT'']"
    by (simp add: example_provider_def example_validator_def expire_cookie_def)
  have l: "example_target (req ?s) (AuthURLPath ?m) (AuthRedirectQueryDisabled ?m)
             (AuthRedirectQueryParameter ?m) = Some ''/auth?redirect_url=/app''"
    by (simp add: example_defs)
  let ?A = "Authenticate ?P example_target ?m ?s"
  note t = Authenticate_validation_error [OF h1 h2 h3 h4 h5 h6]
  from t have a1: "fst ?A = (User_zero, False, Some expired_error)"
    by (elim conjE)
  from t have "statuses (resp (snd ?A)) = statuses (resp ?s) @ [302]"
    by (elim conjE)
  then have a2: "statuses (resp (snd ?A)) = [302]"
    by (simp add: w)
  from t have "bodies (resp (snd ?A)) = bodies (resp ?s) @ [''Unauthorized'']"
    by (elim conjE)
  then have a3: "bodies (resp (snd ?A)) = [''Unauthorized'']"
    by (simp add: w)
  from t have "Header_Values (headers (resp (snd ?A))) ''Set-Cookie'' =
                 Header_Values (headers (resp ?s)) ''Set-Cookie'' @
                 map expire_cookie (Cookies (TokenValidator ?m))"
    by (elim conjE)
  then have a4: "Header_Values (headers (resp (snd ?A))) ''Set-Cookie''
     = [''access_token=delete; path=/; expires=Thu, 01 Jan 1970 00:00:00 GMT'',
        ''jwt_access_token=delete; path=/; expires=Thu, 01 Jan 1970 00:00:00 GMT'']"
    by (simp add: w c)
  from t have "headers (resp (snd ?A)) ''Location'' =
                 (case example_target (req ?s) (AuthURLPath ?m) (AuthRedirectQueryDisabled ?m)
                         (AuthRedirectQueryParameter ?m) of
                    None \<Rightarrow> headers (resp ?s) ''Location''
                  | Some v \<Rightarrow> Some [v])"
    by (elim conjE)
  then have a5: "headers (resp (snd ?A)) ''Location'' = Some [''/auth?redirect_url=/app'']"
    by (simp add: l)
  from h1 h4 h5 a1 a2 a3 a4 a5 show ?thesis
    by (intro conjI)
qed

text \<open>
  C3.  If the validator returns no error, the call writes the response of the
  validation-error path (cookie purge, redirect header, status 302) with the body
  \<open>Unauthorized User\<close> when \<open>validUser\<close> is false, and with the body
  \<open>User Unauthorized\<close> when \<open>validUser\<close> is true and the claim set is nil; in
  both cases it returns a zero user, false and a nil error.
\<close>

theorem Authenticate_invalid_user_or_nil_claims:
  assumes "bind_provider Provision m s = Some (m', s')"
      and "prepare_options m' (req s) (store s) = (opts, st)"
      and "Authorize (TokenValidator m') (req s) (st ! opts) = (uc, vu, None)"
      and "\<not> vu \<or> uc = None"
      and "Authenticate Provision target m s = (ret, s'')"
  shows "ret = (User_zero, False, None) \<and>
         resp s'' = unauthorized_response target m' (resp s) (req s)
                      (if \<not> vu then ''Unauthorized User'' else ''User Unauthorized'') \<and>
         statuses (resp s'') = statuses (resp s) @ [302] \<and>
         bodies (resp s'') =
           bodies (resp s) @ [if \<not> vu then ''Unauthorized User'' else ''User Unauthorized''] \<and>
         Header_Values (headers (resp s'')) ''Set-Cookie'' =
           Header_Values (headers (resp s)) ''Set-Cookie'' @
           map expire_cookie (Cookies (TokenValidator m')) \<and>
         headers (resp s'') ''Location'' =
           (case target (req s) (AuthURLPath m') (AuthRedirectQueryDisabled m')
                   (AuthRedirectQueryParameter m') of
              None \<Rightarrow> headers (resp s) ''Location''
            | Some v \<Rightarrow> Some [v])"
proof -
  from assms(1) have fr: "resp s' = resp s" "req s' = req s" "store s' = store s"
    using bind_provider_frame by blast+
  have a: "authorize_request target m' s' = (ret, s'')"
    using Authenticate_bound [OF assms(1)] assms(5) by simp
  have "ret = (User_zero, False, None) \<and>
        resp s'' = unauthorized_response target m' (resp s) (req s)
                     (if \<not> vu then ''Unauthorized User'' else ''User Unauthorized'')"
  proof (cases vu)
    case False
    then show ?thesis
      using a authorize_request_invalid_user [of m' s' opts st uc target] assms(2,3) fr by auto
  next
    case True
    with assms(4) have "uc = None" by simp
    with True show ?thesis
      using a authorize_request_nil_claims [of m' s' opts st target] assms(2,3) fr by auto
  qed
  then show ?thesis
    by (simp add: unauthorized_response_statuses unauthorized_response_bodies
          unauthorized_response_cookies unauthorized_response_location)
qed

theorem Authenticate_invalid_user_or_nil_claims_witness:
  "fst (Authenticate (pool_Provision Some) example_target
          (example_provider (Some full_claims, False, None)) (example_state Map.empty))
     = (User_zero, False, None) \<and>
   statuses (resp (snd (Authenticate (pool_Provision Some) example_target
          (example_provider (Some full_claims, False, None)) (example_state Map.empty)))) = [302] \<and>
   bodies (resp (snd (Authenticate (pool_Provision Some) example_target
          (example_provider (Some full_claims, False, None)) (example_state Map.empty))))
     = [''Unauthorized User''] \<and>
   fst (Authenticate (pool_Provision Some) example_target
          (example_provider (None, True, None)) (example_state Map.empty))
     = (User_zero, False, None) \<and>
   statuses (resp (snd (Authenticate (pool_Provision Some) example_target
          (example_provider (None, True, None)) (example_state Map.empty)))) = [302] \<and>
   bodies (resp (snd (Authenticate (pool_Provision Some) example_target
          (example_provider (None, True, None)) (example_state Map.empty))))
     = [''User Unauthorized'']"
proof -
  let ?s = "example_state Map.empty"
  let ?P = "pool_Provision Some"
  have w: "statuses (resp ?s) = []" "bodies (resp ?s) = []"
    by (simp_all add: example_state_def example_writer_def)
  have first: "fst (Authenticate ?P example_target (example_provider (Some full_claims, False, None)) ?s)
                 = (User_zero, False, None) \<and>
               statuses (resp (snd (Authenticate ?P example_target
                 (example_provider (Some full_claims, False, None)) ?s))) = [302] \<and>
               bodies (resp (snd (Authenticate ?P example_target
                 (example_provider (Some full_claims, False, None)) ?s))) = [''Unauthorized User'']"
  proof -
    let ?m = "example_provider (Some full_claims, False, None)"
    let ?po = "prepare_options ?m (req ?s) (store ?s)"
    have h1: "bind_provider ?P ?m ?s = Some (?m, ?s)"
      by (simp add: bind_provider_def example_provider_def)
    have h2: "?po = (fst ?po, snd ?po)"
      by simp
    have h3: "Authorize (TokenValidator ?m) (req ?s) (snd ?po ! fst ?po) = (Some full_claims, False, None)"
      by (simp add: example_provider_def example_validator_def)
    have h4: "\<not> False \<or> Some full_claims = None"
      by simp
    have h5: "Authenticate ?P example_target ?m ?s
                = (fst (Authenticate ?P example_target ?m ?s), snd (Authenticate ?P example_target ?m ?s))"
      by simp
    show ?thesis
      using Authenticate_invalid_user_or_nil_claims [OF h1 h2 h3 h4 h5]
      by (simp add: w unauthorized_response_statuses unauthorized_response_bodies)
  qed
  have second: "fst (Authenticate ?P example_target (example_provider (None, True, None)) ?s)
                 = (User_zero, False, None) \<and>
               statuses (resp (snd (Authenticate ?P example_target
                 (example_provider (None, True, None)) ?s))) = [302] \<and>
               bodies (resp (snd (Authenticate ?P example_target
                 (example_provider (None, True, None)) ?s))) = [''User Unauthorized'']"
  proof -
    let ?m = "example_provider (None, True, None)"
    let ?po = "prepare_options ?m (req ?s) (store ?s)"
    have h1: "bind_provider ?P ?m ?s = Some (?m, ?s)"
      by (simp add: bind_provider_def example_provider_def)
    have h2: "?po = (fst ?po, snd ?po)"
      by simp
    have h3: "Authorize (TokenValidator ?m) (req ?s) (snd ?po ! fst ?po) = (None, True, None)"
      by (simp add: example_provider_def example_validator_def)
    have h4: "\<not> True \<or> (None :: UserClaims option) = None"
      by simp
    have h5: "Authenticate ?P example_target ?m ?s
                = (fst (Authenticate ?P example_target ?m ?s), snd (Authenticate ?P example_target ?m ?s))"
      by simp
    show ?thesis
      using Authenticate_invalid_user_or_nil_claims [OF h1 h2 h3 h4 h5]
      by (simp add: w unauthorized_response_statuses unauthorized_response_bodies)
  qed
  from first second show ?thesis by simp
qed

text \<open>
  C4.  \<open>GrantToken\<close> fails with the unsupported-method error, whose message names
  the method, when the method is not registered; otherwise with the nil-claims
  error when the claims are nil; otherwise with the empty-secret error when the
  secret is empty; otherwise it returns what the claim set's \<open>GetToken\<close> returns
  for the method and the bytes of the secret.
\<close>

theorem GrantToken_precedence:
  "(methods method = None \<longrightarrow>
      GrantToken methods GetToken g method claims =
        ('''', Some (WithArgs ErrUnsupportedSigningMethod [method])) \<and>
      Error (WithArgs ErrUnsupportedSigningMethod [method]) =
        ''grantor does not support '' @ method @ '' token signing method'') \<and>
   (methods method \<noteq> None \<and> claims = None \<longrightarrow>
      GrantToken methods GetToken g method claims = ('''', Some (strError ErrNoClaims))) \<and>
   (methods method \<noteq> None \<and> claims = Some c \<and> TokenSecret g = '''' \<longrightarrow>
      GrantToken methods GetToken g method claims = ('''', Some (strError ErrEmptySecret))) \<and>
   (methods method \<noteq> None \<and> claims = Some c \<and> TokenSecret g \<noteq> '''' \<longrightarrow>
      GrantToken methods GetToken g method claims = GetToken c method (TokenSecret g))"
  by (auto simp: GrantToken_def ErrUnsupportedSigningMethod_def WithArgs_def)

theorem GrantToken_precedence_witness:
  "example_methods ''none'' = None \<and>
   GrantToken example_methods example_GetToken \<lparr>TokenSecret = ''''\<rparr> ''none'' None =
     ('''', Some (WithArgs ErrUnsupportedSigningMethod [''none''])) \<and>
   Error (WithArgs ErrUnsupportedSigningMethod [''none'']) =
     ''grantor does not support none token signing method'' \<and>
   example_methods ''HS512'' \<noteq> None \<and>
   GrantToken example_methods example_GetToken \<lparr>TokenSecret = ''''\<rparr> ''HS512'' None =
     ('''', Some (strError ErrNoClaims)) \<and>
   GrantToken example_methods example_GetToken \<lparr>TokenSecret = ''''\<rparr> ''HS512'' (Some example_claims) =
     ('''', Some (strError ErrEmptySecret)) \<and>
   GrantToken example_methods example_GetToken \<lparr>TokenSecret = ''secret''\<rparr> ''HS512''
       (Some example_claims) =
     (''HS512.a@b.com.secret'', None)"
proof -
  have n: "example_methods ''none'' = None" and y: "example_methods ''HS512'' \<noteq> None"
    by (simp_all add: example_methods_def)
  have e: "example_GetToken example_claims ''HS512'' ''secret'' = (''HS512.a@b.com.secret'', None)"
    by (simp add: example_GetToken_def example_claims_def)
  show ?thesis
    using n y
      GrantToken_precedence [of example_methods "''none''" example_GetToken "\<lparr>TokenSecret = ''''\<rparr>" None example_claims]
      GrantToken_precedence [of example_methods "''HS512''" example_GetToken "\<lparr>TokenSecret = ''''\<rparr>" None example_claims]
      GrantToken_precedence [of example_methods "''HS512''" example_GetToken "\<lparr>TokenSecret = ''''\<rparr>" "Some example_claims" example_claims]
      GrantToken_precedence [of example_methods "''HS512''" example_GetToken "\<lparr>TokenSecret = ''secret''\<rparr>" "Some example_claims" example_claims]
    by (simp add: e)
qed

text \<open>
  C5.  On a provider whose \<open>ProvisionFailed\<close> flag is set, the call appends
  status 500, writes the body \<open>Internal Server Error\<close> and returns the
  provisioning error; it does nothing else: the pool, the store, the request and
  the events are as before, so neither the pool nor the validator is called,
  whatever the other fields, the pool and the request are.
\<close>

theorem Authenticate_provision_failed:
  assumes "ProvisionFailed m"
  shows "Authenticate Provision target m s =
           ((User_zero, False, Some (strError ErrProvisonFailed)),
            s\<lparr>resp := (resp s)\<lparr>statuses := statuses (resp s) @ [500],
                                bodies := bodies (resp s) @ [''Internal Server Error'']\<rparr>\<rparr>) \<and>
         trace (snd (Authenticate Provision target m s)) = trace s \<and>
         authorize_calls (trace (snd (Authenticate Provision target m s))) = authorize_calls (trace s)"
  using assms by (simp add: Authenticate_def Let_def Write_def WriteHeader_def)

theorem Authenticate_provision_failed_witness:
  "ProvisionFailed ((example_provider (Some full_claims, True, None))\<lparr>ProvisionFailed := True\<rparr>) \<and>
   Authenticate (pool_Provision Some) example_target
     ((example_provider (Some full_claims, True, None))\<lparr>ProvisionFailed := True\<rparr>)
     (example_state Map.empty) =
     ((User_zero, False, Some (strError ErrProvisonFailed)),
      \<lparr>resp = \<lparr>headers = Map.empty, statuses = [500], bodies = [''Internal Server Error'']\<rparr>,
       req = example_request, pool = Map.empty,
       store = [\<lparr>TokenValidatorOptions.Metadata = Map.empty\<rparr>], trace = []\<rparr>)"
proof -
  have h: "ProvisionFailed ((example_provider (Some full_claims, True, None))\<lparr>ProvisionFailed := True\<rparr>)"
    by simp
  show ?thesis
    using h Authenticate_provision_failed [OF h, of "pool_Provision Some" example_target
        "example_state Map.empty"]
    by (simp add: example_state_def example_writer_def)
qed

text \<open>
  C6.  On success (no error, \<open>validUser\<close> true, a claim set) the call returns
  true, a nil error and an identity whose identifier is the claim set's email and
  whose metadata has under \<open>roles\<close> the roles joined by single spaces; for the
  email \<open>a@b.com\<close> and the roles \<open>admin\<close>, \<open>user\<close> these are \<open>a@b.com\<close> and
  \<open>admin user\<close>.
\<close>

theorem Authenticate_identity:
  assumes "bind_provider Provision m s = Some (m', s')"
      and "prepare_options m' (req s) (store s) = (opts, st)"
      and "Authorize (TokenValidator m') (req s) (st ! opts) = (Some c, True, None)"
      and "Authenticate Provision target m s = (ret, s'')"
  shows "ID (fst ret) = Email c \<and>
         Metadata (fst ret) ''roles'' = Some (Join (Roles c) '' '') \<and>
         snd ret = (True, None) \<and>
         (Email c = ''a@b.com'' \<and> Roles c = [''admin'', ''user''] \<longrightarrow>
            ID (fst ret) = ''a@b.com'' \<and> Metadata (fst ret) ''roles'' = Some ''admin user'')"
proof -
  from assms(1) have fr: "resp s' = resp s" "req s' = req s" "store s' = store s"
    using bind_provider_frame by blast+
  have a: "authorize_request target m' s' = (ret, s'')"
    using Authenticate_bound [OF assms(1)] assms(4) by simp
  have p: "prepare_options m' (req s') (store s') = (opts, st)"
    using assms(2) fr by simp
  have r: "Authorize (TokenValidator m') (req s') (st ! opts) = (Some c, True, None)"
    using assms(3) fr by simp
  note f = authorize_request_success(1,2,3) [OF p r a]
  have "Email c = ''a@b.com'' \<and> Roles c = [''admin'', ''user''] \<longrightarrow>
          ID (fst ret) = ''a@b.com'' \<and> Metadata (fst ret) ''roles'' = Some ''admin user''"
    using f by simp
  with f show ?thesis by (intro conjI)
qed

theorem Authenticate_identity_witness:
  "Email example_claims = ''a@b.com'' \<and> Roles example_claims = [''admin'', ''user''] \<and>
   ID (fst (fst (Authenticate (pool_Provision Some) example_target
        (example_provider (Some example_claims, True, None)) (example_state Map.empty))))
     = ''a@b.com'' \<and>
   Metadata (fst (fst (Authenticate (pool_Provision Some) example_target
        (example_provider (Some example_claims, True, None)) (example_state Map.empty)))) ''roles''
     = Some ''admin user'' \<and>
   snd (fst (Authenticate (pool_Provision Some) example_target
        (example_provider (Some example_claims, True, None)) (example_state Map.empty)))
     = (True, None)"
proof -
  let ?m = "example_provider (Some example_claims, True, None)"
  let ?s = "example_state Map.empty"
  let ?P = "pool_Provision Some"
  let ?po = "prepare_options ?m (req ?s) (store ?s)"
  let ?A = "Authenticate ?P example_target ?m ?s"
  have h1: "bind_provider ?P ?m ?s = Some (?m, ?s)"
    by (simp add: bind_provider_def example_provider_def)
  have h2: "?po = (fst ?po, snd ?po)"
    by simp
  have h3: "Authorize (TokenValidator ?m) (req ?s) (snd ?po ! fst ?po) = (Some example_claims, True, None)"
    by (simp add: example_provider_def example_validator_def)
  have h4: "?A = (fst ?A, snd ?A)"
    by simp
  have e: "Email example_claims = ''a@b.com''" "Roles example_claims = [''admin'', ''user'']"
    by (simp_all add: example_claims_def)
  show ?thesis
    using e Authenticate_identity [OF h1 h2 h3 h4] by simp
qed


text \<open>
  C7, as the spec states it, fails: with claim-header propagation enabled and a
  successful validation whose claim set has no name and no subject, the forwarded
  request gets neither \<open>X-Token-User-Name\<close> nor \<open>X-Token-Subject\<close>.
\<close>

theorem Authenticate_pass_claims_counterexample:
  "PassClaimsWithHeaders (example_provider (Some example_claims, True, None)) \<and>
   snd (fst (Authenticate (pool_Provision Some) example_target
        (example_provider (Some example_claims, True, None)) (example_state Map.empty)))
     = (True, None) \<and>
   Header (req (snd (Authenticate (pool_Provision Some) example_target
        (example_provider (Some example_claims, True, None)) (example_state Map.empty))))
     ''X-Token-User-Name'' = None \<and>
   Header (req (snd (Authenticate (pool_Provision Some) example_target
        (example_provider (Some example_claims, True, None)) (example_state Map.empty))))
     ''X-Token-Subject'' = None"
  by (simp add: Authenticate_def authorize_request_def prepare_options_def Clone_def Let_def
        Header_Set_def example_defs)


text \<open>
  C7, amended.  On success the call writes nothing onto the response.  With
  claim-header propagation enabled it sets on the forwarded request
  \<open>X-Token-User-Name\<close> when the name is not empty, \<open>X-Token-User-Email\<close> when the
  email is not empty, \<open>X-Token-User-Roles\<close> when there is a role and
  \<open>X-Token-Subject\<close> when the subject is not empty, each to the one value from
  the claim set, and leaves every other header of the request as it is; with
  propagation disabled the request is unchanged.
\<close>

theorem Authenticate_pass_claims:
  assumes "bind_provider Provision m s = Some (m', s')"
      and "prepare_options m' (req s) (store s) = (opts, st)"
      and "Authorize (TokenValidator m') (req s) (st ! opts) = (Some c, True, None)"
      and "Authenticate Provision target m s = (ret, s'')"
  shows "resp s'' = resp s \<and>
         req s'' = (req s)\<lparr>Header := Header (req s'')\<rparr> \<and>
         (PassClaimsWithHeaders m' \<longrightarrow>
            Header (req s'') ''X-Token-User-Name'' =
              (if UserClaims.Name c \<noteq> '''' then Some [UserClaims.Name c]
               else Header (req s) ''X-Token-User-Name'') \<and>
            Header (req s'') ''X-Token-User-Email'' =
              (if Email c \<noteq> '''' then Some [Email c] else Header (req s) ''X-Token-User-Email'') \<and>
            Header (req s'') ''X-Token-User-Roles'' =
              (if Roles c \<noteq> [] then Some [Join (Roles c) '' '']
               else Header (req s) ''X-Token-User-Roles'') \<and>
            Header (req s'') ''X-Token-Subject'' =
              (if Subject c \<noteq> '''' then Some [Subject c] else Header (req s) ''X-Token-Subject'') \<and>
            (\<forall>k. k \<noteq> ''X-Token-User-Name'' \<and> k \<noteq> ''X-Token-User-Email'' \<and>
                 k \<noteq> ''X-Token-User-Roles'' \<and> k \<noteq> ''X-Token-Subject'' \<longrightarrow>
                 Header (req s'') k = Header (req s) k)) \<and>
         (\<not> PassClaimsWithHeaders m' \<longrightarrow> req s'' = req s)"
proof -
  from assms(1) have fr: "resp s' = resp s" "req s' = req s" "store s' = store s"
    using bind_provider_frame by blast+
  have a: "authorize_request target m' s' = (ret, s'')"
    using Authenticate_bound [OF assms(1)] assms(4) by simp
  have p: "prepare_options m' (req s') (store s') = (opts, st)"
    using assms(2) fr by simp
  have r: "Authorize (TokenValidator m') (req s') (st ! opts) = (Some c, True, None)"
    using assms(3) fr by simp
  have w: "resp s'' = resp s"
    using authorize_request_success(4) [OF p r a] fr by simp
  have q: "req s'' = (req s)\<lparr>Header := Header (req s'')\<rparr>"
    using authorize_request_success(9) [OF p r a] fr by simp
  have off: "\<not> PassClaimsWithHeaders m' \<longrightarrow> req s'' = req s"
    using authorize_request_success(8) [OF p r a] fr by simp
  have on: "PassClaimsWithHeaders m' \<longrightarrow>
            Header (req s'') ''X-Token-User-Name'' =
              (if UserClaims.Name c \<noteq> '''' then Some [UserClaims.Name c]
               else Header (req s) ''X-Token-User-Name'') \<and>
            Header (req s'') ''X-Token-User-Email'' =
              (if Email c \<noteq> '''' then Some [Email c] else Header (req s) ''X-Token-User-Email'') \<and>
            Header (req s'') ''X-Token-User-Roles'' =
              (if Roles c \<noteq> [] then Some [Join (Roles c) '' '']
               else Header (req s) ''X-Token-User-Roles'') \<and>
            Header (req s'') ''X-Token-Subject'' =
              (if Subject c \<noteq> '''' then Some [Subject c] else Header (req s) ''X-Token-Subject'') \<and>
            (\<forall>k. k \<noteq> ''X-Token-User-Name'' \<and> k \<noteq> ''X-Token-User-Email'' \<and>
                 k \<noteq> ''X-Token-User-Roles'' \<and> k \<noteq> ''X-Token-Subject'' \<longrightarrow>
                 Header (req s'') k = Header (req s) k)"
  proof
    assume e: "PassClaimsWithHeaders m'"
    note h = authorize_request_success_headers [OF p r a e]
    show "Header (req s'') ''X-Token-User-Name'' =
              (if UserClaims.Name c \<noteq> '''' then Some [UserClaims.Name c]
               else Header (req s) ''X-Token-User-Name'') \<and>
            Header (req s'') ''X-Token-User-Email'' =
              (if Email c \<noteq> '''' then Some [Email c] else Header (req s) ''X-Token-User-Email'') \<and>
            Header (req s'') ''X-Token-User-Roles'' =
              (if Roles c \<noteq> [] then Some [Join (Roles c) '' '']
               else Header (req s) ''X-Token-User-Roles'') \<and>
            Header (req s'') ''X-Token-Subject'' =
              (if Subject c \<noteq> '''' then Some [Subject c] else Header (req s) ''X-Token-Subject'') \<and>
            (\<forall>k. k \<noteq> ''X-Token-User-Name'' \<and> k \<noteq> ''X-Token-User-Email'' \<and>
                 k \<noteq> ''X-Token-User-Roles'' \<and> k \<noteq> ''X-Token-Subject'' \<longrightarrow>
                 Header (req s'') k = Header (req s) k)"
      using h(1,2,3,4) h(5) unfolding fr by blast
  qed
  from w q on off show ?thesis by (intro conjI)
qed

theorem Authenticate_pass_claims_witness:
  "PassClaimsWithHeaders (example_provider (Some full_claims, True, None)) \<and>
   resp (snd (Authenticate (pool_Provision Some) example_target
        (example_provider (Some full_claims, True, None)) (example_state Map.empty)))
     = example_writer \<and>
   Header (req (snd (Authenticate (pool_Provision Some) example_target
        (example_provider (Some full_claims, True, None)) (example_state Map.empty))))
     ''X-Token-User-Name'' = Some [''A B''] \<and>
   Header (req (snd (Authenticate (pool_Provision Some) example_target
        (example_provider (Some full_claims, True, None)) (example_state Map.empty))))
     ''X-Token-User-Email'' = Some [''a@b.com''] \<and>
   Header (req (snd (Authenticate (pool_Provision Some) example_target
        (example_provider (Some full_claims, True, None)) (example_state Map.empty))))
     ''X-Token-User-Roles'' = Some [''admin user''] \<and>
   Header (req (snd (Authenticate (pool_Provision Some) example_target
        (example_provider (Some full_claims, True, None)) (example_state Map.empty))))
     ''X-Token-Subject'' = Some [''ab''] \<and>
   Header (req (snd (Authenticate (pool_Provision Some) example_target
        (example_provider (Some full_claims, True, None)) (example_state Map.empty))))
     ''Cookie'' = None"
proof -
  let ?m = "example_provider (Some full_claims, True, None)"
  let ?s = "example_state Map.empty"
  let ?P = "pool_Provision Some"
  let ?po = "prepare_options ?m (req ?s) (store ?s)"
  let ?A = "Authenticate ?P example_target ?m ?s"
  have h1: "bind_provider ?P ?m ?s = Some (?m, ?s)"
    by (simp add: bind_provider_def example_provider_def)
  have h2: "?po = (fst ?po, snd ?po)"
    by simp
  have h3: "Authorize (TokenValidator ?m) (req ?s) (snd ?po ! fst ?po) = (Some full_claims, True, None)"
    by (simp add: example_provider_def example_validator_def)
  have h4: "?A = (fst ?A, snd ?A)"
    by simp
  have e: "PassClaimsWithHeaders ?m"
    by (simp add: example_provider_def)
  have c: "UserClaims.Name full_claims = ''A B''" "Email full_claims = ''a@b.com''"
    "Roles full_claims = [''admin'', ''user'']" "Subject full_claims = ''ab''"
    by (simp_all add: full_claims_def)
  have q: "resp ?s = example_writer" "Header (req ?s) ''Cookie'' = None"
    by (simp_all add: example_state_def example_request_def)
  show ?thesis
    using e Authenticate_pass_claims [OF h1 h2 h3 h4]
    by (simp add: c q)
qed


text \<open>
  C8.  With method and path validation enabled, the options the validator is
  called with are a new object of the store, not the object the configuration
  points to.  The new object is the configuration's options with the request
  method stored under \<open>method\<close> and the request path under \<open>path\<close> of the
  metadata: it has these two entries and agrees with the configured options on
  every other key.  The objects the store had before the call, the
  configuration's options among them, are unchanged.
\<close>

theorem Authenticate_clones_options:
  assumes "bind_provider Provision m s = Some (m', s')"
      and "ValidateMethodPath m'"
      and "TokenValidatorOptions m' < length (store s)"
      and "Authenticate Provision target m s = (ret, s'')"
  shows "\<exists>opts.
           opts = (store s ! TokenValidatorOptions m')\<lparr>TokenValidatorOptions.Metadata :=
                    (TokenValidatorOptions.Metadata (store s ! TokenValidatorOptions m'))
                      (''method'' \<mapsto> Method (req s), ''path'' \<mapsto> URL_Path (req s))\<rparr> \<and>
           authorize_calls (trace s'') = authorize_calls (trace s) @ [(length (store s), opts)] \<and>
           TokenValidatorOptions.Metadata opts ''method'' = Some (Method (req s)) \<and>
           TokenValidatorOptions.Metadata opts ''path'' = Some (URL_Path (req s)) \<and>
           (\<forall>k. k \<noteq> ''method'' \<and> k \<noteq> ''path'' \<longrightarrow>
                TokenValidatorOptions.Metadata opts k =
                TokenValidatorOptions.Metadata (store s ! TokenValidatorOptions m') k) \<and>
           length (store s) \<noteq> TokenValidatorOptions m' \<and>
           store s'' = store s @ [opts] \<and>
           store s'' ! TokenValidatorOptions m' = store s ! TokenValidatorOptions m'"
proof -
  define a where "a = TokenValidatorOptions m'"
  define clone where
    "clone = (store s ! a)\<lparr>TokenValidatorOptions.Metadata :=
               (TokenValidatorOptions.Metadata (store s ! a))
                 (''method'' \<mapsto> Method (req s), ''path'' \<mapsto> URL_Path (req s))\<rparr>"
  from assms(1) have fr: "req s' = req s" "store s' = store s"
    "authorize_calls (trace s') = authorize_calls (trace s)"
    using bind_provider_frame by blast+
  have a: "authorize_request target m' s' = (ret, s'')"
    using Authenticate_bound [OF assms(1)] assms(4) by simp
  have p: "prepare_options m' (req s') (store s') = (length (store s), store s @ [clone])"
    unfolding fr clone_def a_def by (rule prepare_options_clone [OF assms(2)])
  note f = authorize_request_frame [OF p a]
  have c0: "clone = (store s ! TokenValidatorOptions m')\<lparr>TokenValidatorOptions.Metadata :=
                    (TokenValidatorOptions.Metadata (store s ! TokenValidatorOptions m'))
                      (''method'' \<mapsto> Method (req s), ''path'' \<mapsto> URL_Path (req s))\<rparr>"
    unfolding clone_def a_def by (rule refl)
  have c1: "authorize_calls (trace s'') = authorize_calls (trace s) @ [(length (store s), clone)]"
    using f fr(3) by simp
  have c2: "TokenValidatorOptions.Metadata clone ''method'' = Some (Method (req s))"
    by (simp add: clone_def)
  have c3: "TokenValidatorOptions.Metadata clone ''path'' = Some (URL_Path (req s))"
    by (simp add: clone_def)
  have c4: "\<forall>k. k \<noteq> ''method'' \<and> k \<noteq> ''path'' \<longrightarrow>
                TokenValidatorOptions.Metadata clone k =
                TokenValidatorOptions.Metadata (store s ! TokenValidatorOptions m') k"
    by (simp add: clone_def a_def)
  have c5: "length (store s) \<noteq> TokenValidatorOptions m'"
    using assms(3) by simp
  have c6: "store s'' = store s @ [clone]"
    using f by simp
  have c7: "store s'' ! TokenValidatorOptions m' = store s ! TokenValidatorOptions m'"
    using assms(3) by (simp add: c6 nth_append)
  from c0 c1 c2 c3 c4 c5 c6 c7 show ?thesis
    by (intro exI [of _ clone] conjI)
qed

theorem Authenticate_clones_options_witness:
  "ValidateMethodPath (example_provider (Some full_claims, True, None)) \<and>
   TokenValidatorOptions (example_provider (Some full_claims, True, None))
     < length (store example_state_with_options) \<and>
   authorize_calls (trace (snd (Authenticate (pool_Provision Some) example_target
       (example_provider (Some full_claims, True, None)) example_state_with_options)))
     = [(1, \<lparr>TokenValidatorOptions.Metadata =
               [''realm'' \<mapsto> ''local'', ''method'' \<mapsto> ''GET'', ''path'' \<mapsto> ''/app'']\<rparr>)] \<and>
   store (snd (Authenticate (pool_Provision Some) example_target
       (example_provider (Some full_claims, True, None)) example_state_with_options))
     = [\<lparr>TokenValidatorOptions.Metadata = [''realm'' \<mapsto> ''local'']\<rparr>,
        \<lparr>TokenValidatorOptions.Metadata =
               [''realm'' \<mapsto> ''local'', ''method'' \<mapsto> ''GET'', ''path'' \<mapsto> ''/app'']\<rparr>]"
proof -
  let ?m = "example_provider (Some full_claims, True, None)"
  let ?s = "example_state_with_options"
  let ?P = "pool_Provision Some"
  let ?A = "Authenticate ?P example_target ?m ?s"
  let ?c = "\<lparr>TokenValidatorOptions.Metadata =
               [''realm'' \<mapsto> ''local'', ''method'' \<mapsto> ''GET'', ''path'' \<mapsto> ''/app'']\<rparr>"
  have h1: "bind_provider ?P ?m ?s = Some (?m, ?s)"
    by (simp add: bind_provider_def example_provider_def)
  have h2: "ValidateMethodPath ?m"
    by (simp add: example_provider_def)
  have h3: "TokenValidatorOptions ?m < length (store ?s)"
    by (simp add: example_provider_def example_state_with_options_def)
  have h4: "?A = (fst ?A, snd ?A)"
    by simp
  have q: "store ?s = [\<lparr>TokenValidatorOptions.Metadata = [''realm'' \<mapsto> ''local'']\<rparr>]"
    "trace ?s = []" "Method (req ?s) = ''GET''" "URL_Path (req ?s) = ''/app''"
    "TokenValidatorOptions ?m = 0"
    by (simp_all add: example_state_with_options_def example_state_def example_request_def
          example_options_def example_provider_def)
  from Authenticate_clones_options [OF h1 h2 h3 h4]
  obtain opts where
    o: "opts = (store ?s ! TokenValidatorOptions ?m)\<lparr>TokenValidatorOptions.Metadata :=
                 (TokenValidatorOptions.Metadata (store ?s ! TokenValidatorOptions ?m))
                   (''method'' \<mapsto> Method (req ?s), ''path'' \<mapsto> URL_Path (req ?s))\<rparr>"
    and c: "authorize_calls (trace (snd ?A)) = authorize_calls (trace ?s) @ [(length (store ?s), opts)]"
    and t: "store (snd ?A) = store ?s @ [opts]"
    by (elim exE conjE)
  have e: "opts = ?c"
    unfolding o q by simp
  have a1: "authorize_calls (trace (snd ?A)) = [(1, ?c)]"
    using c unfolding e q by simp
  have a2: "store (snd ?A) = [\<lparr>TokenValidatorOptions.Metadata = [''realm'' \<mapsto> ''local'']\<rparr>, ?c]"
    using t unfolding e q by simp
  from h2 h3 a1 a2 show ?thesis
    by (intro conjI)
qed

text \<open>
  C9.  Every call writes the response of the one outcome that the conditions of
  the state machine assign to it: it appends at most one status code, one of
  those of the outcome, and none exactly on success; it appends the body of the
  outcome, which is one body, or none exactly on success; it returns true exactly
  on success.  The six outcomes have six different bodies.
\<close>

theorem Authenticate_one_outcome:
  assumes "Authenticate Provision target m s = (ret, s'')"
  shows "\<exists>codes.
           statuses (resp s'') = statuses (resp s) @ codes \<and>
           length codes \<le> 1 \<and>
           set codes \<subseteq> set (outcome_statuses (outcome_of Provision m s)) \<and>
           (codes = [] \<longleftrightarrow> outcome_of Provision m s = Success) \<and>
           bodies (resp s'') = bodies (resp s) @ outcome_body (outcome_of Provision m s) \<and>
           (fst (snd ret) \<longleftrightarrow> outcome_of Provision m s = Success) \<and>
           length (outcome_body (outcome_of Provision m s)) \<le> 1 \<and>
           (outcome_body (outcome_of Provision m s) = [] \<longleftrightarrow> outcome_of Provision m s = Success) \<and>
           (\<forall>x y. outcome_body x = outcome_body y \<longrightarrow> x = y)"
proof -
  let ?o = "outcome_of Provision m s"
  have inj: "\<forall>x y. outcome_body x = outcome_body y \<longrightarrow> x = y"
  proof (intro allI impI)
    fix x y assume "outcome_body x = outcome_body y"
    then show "x = y" by (cases x; cases y) simp_all
  qed
  have len: "length (outcome_body ?o) \<le> 1"
    by (cases ?o) simp_all
  have emp: "outcome_body ?o = [] \<longleftrightarrow> ?o = Success"
    by (cases ?o) simp_all
  have main: "\<exists>codes.
           statuses (resp s'') = statuses (resp s) @ codes \<and>
           length codes \<le> 1 \<and>
           set codes \<subseteq> set (outcome_statuses ?o) \<and>
           (codes = [] \<longleftrightarrow> ?o = Success) \<and>
           bodies (resp s'') = bodies (resp s) @ outcome_body ?o \<and>
           (fst (snd ret) \<longleftrightarrow> ?o = Success)"
  proof (cases "bind_provider Provision m s")
    case None
    then have o: "?o = ProvisioningFailure"
      by (simp add: outcome_of_def)
    from Authenticate_unbound [OF None assms] show ?thesis
      by (intro exI [of _ "[500]"]) (simp add: o)
  next
    case (Some b)
    obtain m' s' where b: "bind_provider Provision m s = Some (m', s')"
      using Some by (cases b) simp
    obtain opts st where p: "prepare_options m' (req s') (store s') = (opts, st)"
      by fastforce
    obtain uc vu err where r: "Authorize (TokenValidator m') (req s') (st ! opts) = (uc, vu, err)"
      using prod_cases3 by blast
    have a: "authorize_request target m' s' = (ret, s'')"
      using Authenticate_bound [OF b] assms by simp
    from b have fr: "resp s' = resp s"
      using bind_provider_frame by blast
    show ?thesis
    proof (cases err)
      case (Some e)
      show ?thesis
      proof (cases "Contains (Error e) forbidden_marker")
        case True
        have o: "?o = Forbidden"
          by (simp add: outcome_of_def b p r Some True)
        from authorize_request_forbidden [OF p, of uc vu e target] r Some True a
        show ?thesis
          by (intro exI [of _ "[if ForbiddenURL m' \<noteq> '''' then 303 else 403]"])
             (auto simp: o fr Write_def WriteHeader_def)
      next
        case False
        have o: "?o = ValidationError"
          by (simp add: outcome_of_def b p r Some False)
        from authorize_request_error [OF p, of uc vu e target] r Some False a
        show ?thesis
          by (intro exI [of _ "[302]"])
             (auto simp: o fr unauthorized_response_statuses unauthorized_response_bodies)
      qed
    next
      case None
      show ?thesis
      proof (cases vu)
        case False
        have o: "?o = InvalidUser"
          by (simp add: outcome_of_def b p r None False)
        from authorize_request_invalid_user [OF p, of uc target] r None False a
        show ?thesis
          by (intro exI [of _ "[302]"])
             (auto simp: o fr unauthorized_response_statuses unauthorized_response_bodies)
      next
        case True
        show ?thesis
        proof (cases uc)
          case nil: None
          have o: "?o = NilClaims"
            by (simp add: outcome_of_def b p r None True nil)
          from authorize_request_nil_claims [OF p, of target] r None True nil a
          show ?thesis
            by (intro exI [of _ "[302]"])
               (auto simp: o fr unauthorized_response_statuses unauthorized_response_bodies)
        next
          case (Some c)
          have o: "?o = Success"
            by (simp add: outcome_of_def b p r None True Some)
          have r': "Authorize (TokenValidator m') (req s') (st ! opts) = (Some c, True, None)"
            using r None True Some by simp
          from authorize_request_success(3,4) [OF p r' a]
          show ?thesis
            by (intro exI [of _ "[]"]) (simp add: o fr)
        qed
      qed
    qed
  qed
  then obtain codes where
    "statuses (resp s'') = statuses (resp s) @ codes \<and>
     length codes \<le> 1 \<and>
     set codes \<subseteq> set (outcome_statuses ?o) \<and>
     (codes = [] \<longleftrightarrow> ?o = Success) \<and>
     bodies (resp s'') = bodies (resp s) @ outcome_body ?o \<and>
     (fst (snd ret) \<longleftrightarrow> ?o = Success)" ..
  with len emp inj show ?thesis
    by (intro exI [of _ codes]) simp
qed

theorem Authenticate_one_outcome_witness:
  "outcome_of (pool_Provision Some) (example_provider (None, False, Some forbidden_error))
     (example_state Map.empty) = Forbidden \<and>
   (\<exists>codes.
      statuses (resp (snd (Authenticate (pool_Provision Some) example_target
        (example_provider (None, False, Some forbidden_error)) (example_state Map.empty)))) = codes \<and>
      length codes = 1 \<and> set codes \<subseteq> {303, 403}) \<and>
   bodies (resp (snd (Authenticate (pool_Provision Some) example_target
        (example_provider (None, False, Some forbidden_error)) (example_state Map.empty))))
     = [''Forbidden''] \<and>
   \<not> fst (snd (fst (Authenticate (pool_Provision Some) example_target
        (example_provider (None, False, Some forbidden_error)) (example_state Map.empty))))"
proof -
  let ?m = "example_provider (None, False, Some forbidden_error)"
  let ?s = "example_state Map.empty"
  let ?P = "pool_Provision Some"
  let ?A = "Authenticate ?P example_target ?m ?s"
  have h: "?A = (fst ?A, snd ?A)"
    by simp
  have o: "outcome_of ?P ?m ?s = Forbidden"
    by (simp add: outcome_of_def bind_provider_def prepare_options_def Clone_def Let_def example_defs)
  have q: "statuses (resp ?s) = []" "bodies (resp ?s) = []"
    by (simp_all add: example_state_def example_writer_def)
  from Authenticate_one_outcome [OF h] obtain codes where
    c: "statuses (resp (snd ?A)) = statuses (resp ?s) @ codes"
       "length codes \<le> 1"
       "set codes \<subseteq> set (outcome_statuses (outcome_of ?P ?m ?s))"
       "codes = [] \<longleftrightarrow> outcome_of ?P ?m ?s = Success"
       "bodies (resp (snd ?A)) = bodies (resp ?s) @ outcome_body (outcome_of ?P ?m ?s)"
       "fst (snd (fst ?A)) \<longleftrightarrow> outcome_of ?P ?m ?s = Success"
    by (elim exE conjE)
  from c(2,4) have l: "length codes = 1"
    by (cases codes) (simp_all add: o)
  have "statuses (resp (snd ?A)) = codes \<and> length codes = 1 \<and> set codes \<subseteq> {303, 403}"
    using c(1,3) l by (simp add: o q)
  then have e: "\<exists>codes. statuses (resp (snd ?A)) = codes \<and> length codes = 1 \<and> set codes \<subseteq> {303, 403}"
    by (rule exI)
  have b: "bodies (resp (snd ?A)) = [''Forbidden'']"
    using c(5) by (simp add: o q)
  have f: "\<not> fst (snd (fst ?A))"
    using c(6) by (simp add: o)
  from o e b f show ?thesis
    by (intro conjI)
qed

text \<open>
  C10, as the spec states it, fails twice.  A call on an instance that is not
  provisioned and has failed provisioning does not fetch the configuration from
  the pool (line 112).  And on the registry of the spec, a call on an instance
  that is not yet provisioned calls \<open>ProviderPool.Provision\<close>, which marks the
  registered entry provisioned, so the registry after the call differs from the
  registry before it.
\<close>

theorem Authenticate_registry_counterexample:
  "\<not> Provisioned (failed_provider (Some full_claims, True, None)) \<and>
   provision_calls (trace (snd (Authenticate (pool_Provision Some) example_target
               (failed_provider (Some full_claims, True, None))
               (example_state (example_pool (Some full_claims, True, None)))))) = [] \<and>
   map_option Provisioned
     (pool (example_state (example_pool (Some full_claims, True, None))) ''example'') = Some False \<and>
   map_option Provisioned
     (pool (snd (Authenticate (pool_Provision Some) example_target
               (unprovisioned_provider (Some full_claims, True, None))
               (example_state (example_pool (Some full_claims, True, None))))) ''example'')
     = Some True"
  by (simp add: Authenticate_def authorize_request_def prepare_options_def Clone_def Let_def
        pool_Provision_def Header_Set_def unprovisioned_provider_def failed_provider_def
        example_pool_def example_defs)

text \<open>
  C10, amended.  \<open>Authenticate\<close> has a value receiver and the lazy bind assigns
  to the per-call copy, so a call changes the registry, and the instances the
  registry holds, only through \<open>ProviderPool.Provision\<close>: on an instance that is
  neither failed nor provisioned the call calls \<open>ProviderPool.Provision\<close> with
  the instance's name exactly once, and the registry after the call is the one
  that call leaves; on a failed or a provisioned instance it does not call the
  pool and the registry is unchanged.  The bind itself does not last: whether the
  next call on the instance fetches the configuration again depends only on the
  flags the instance has when that call starts, that is, on what
  \<open>ProviderPool.Provision\<close> did to it.
\<close>

theorem Authenticate_pool_effect:
  "pool (snd (Authenticate Provision target m s)) =
     (if ProvisionFailed m \<or> Provisioned m then pool s else snd (Provision (pool s) (Name m))) \<and>
   provision_calls (trace (snd (Authenticate Provision target m s))) =
     provision_calls (trace s) @ (if ProvisionFailed m \<or> Provisioned m then [] else [Name m]) \<and>
   provision_calls (trace (snd (Authenticate_on Provision target instance
       (snd (Authenticate_on Provision target instance s))))) =
     provision_calls (trace s) @
       (if ProvisionFailed (instance (pool s)) \<or> Provisioned (instance (pool s)) then []
        else [Name (instance (pool s))]) @
       (if ProvisionFailed (instance (pool (snd (Authenticate_on Provision target instance s)))) \<or>
           Provisioned (instance (pool (snd (Authenticate_on Provision target instance s))))
        then []
        else [Name (instance (pool (snd (Authenticate_on Provision target instance s))))])"
proof -
  have one: "pool (snd (Authenticate Provision target n x)) =
       (if ProvisionFailed n \<or> Provisioned n then pool x else snd (Provision (pool x) (Name n))) \<and>
     provision_calls (trace (snd (Authenticate Provision target n x))) =
       provision_calls (trace x) @ (if ProvisionFailed n \<or> Provisioned n then [] else [Name n])"
    for n and x :: "'a state"
  proof -
    have tail: "pool (snd (authorize_request target k y)) = pool y \<and>
        provision_calls (trace (snd (authorize_request target k y))) = provision_calls (trace y)"
      for k and y :: "'a state"
    proof -
      obtain opts st where p: "prepare_options k (req y) (store y) = (opts, st)"
        by fastforce
      have a: "authorize_request target k y =
                 (fst (authorize_request target k y), snd (authorize_request target k y))"
        by simp
      from authorize_request_frame [OF p a] show ?thesis by simp
    qed
    show ?thesis
    proof (cases "ProvisionFailed n")
      case True
      then show ?thesis
        by (simp add: Authenticate_def Let_def)
    next
      case False
      show ?thesis
      proof (cases "Provisioned n")
        case True
        with False tail [of n x] show ?thesis
          by (simp add: Authenticate_def)
      next
        case unprovisioned: False
        obtain res p where c: "Provision (pool x) (Name n) = (res, p)"
          by fastforce
        show ?thesis
        proof (cases res)
          case (Inl err)
          with False unprovisioned c show ?thesis
            by (simp add: Authenticate_def Let_def provision_calls_append)
        next
          case (Inr inst)
          with False unprovisioned c
            tail [of inst "x\<lparr>pool := p, trace := trace x @ [call_Provision (Name n)]\<rparr>"]
          show ?thesis
            by (simp add: Authenticate_def Let_def provision_calls_append)
        qed
      qed
    qed
  qed
  define s1 where "s1 = snd (Authenticate_on Provision target instance s)"
  have first: "provision_calls (trace s1) =
      provision_calls (trace s) @
        (if ProvisionFailed (instance (pool s)) \<or> Provisioned (instance (pool s)) then []
         else [Name (instance (pool s))])"
    unfolding s1_def Authenticate_on_def using one [of "instance (pool s)" s] by (rule conjunct2)
  have second: "provision_calls (trace (snd (Authenticate_on Provision target instance s1))) =
      provision_calls (trace s1) @
        (if ProvisionFailed (instance (pool s1)) \<or> Provisioned (instance (pool s1)) then []
         else [Name (instance (pool s1))])"
    unfolding Authenticate_on_def using one [of "instance (pool s1)" s1] by (rule conjunct2)
  have two: "provision_calls (trace (snd (Authenticate_on Provision target instance s1))) =
      provision_calls (trace s) @
        (if ProvisionFailed (instance (pool s)) \<or> Provisioned (instance (pool s)) then []
         else [Name (instance (pool s))]) @
        (if ProvisionFailed (instance (pool s1)) \<or> Provisioned (instance (pool s1)) then []
         else [Name (instance (pool s1))])"
    unfolding second first by simp
  from one [of m s] two show ?thesis
    unfolding s1_def by (intro conjI) (erule conjunct1, erule conjunct2, assumption)
qed

theorem Authenticate_pool_effect_witness:
  "pool (snd (Authenticate (pool_Provision Some) example_target
            (unprovisioned_provider (Some full_claims, True, None))
            (example_state (example_pool (Some full_claims, True, None))))) =
     snd (pool_Provision Some (example_pool (Some full_claims, True, None)) ''example'') \<and>
   provision_calls (trace (snd (Authenticate (pool_Provision Some) example_target
            (unprovisioned_provider (Some full_claims, True, None))
            (example_state (example_pool (Some full_claims, True, None)))))) = [''example''] \<and>
   Provisioned (registered_example (Some full_claims, True, None)
     (pool (snd (Authenticate_on (pool_Provision Some) example_target
            (registered_example (Some full_claims, True, None))
            (example_state (example_pool (Some full_claims, True, None))))))) \<and>
   provision_calls (trace (snd (Authenticate_on (pool_Provision Some) example_target
            (registered_example (Some full_claims, True, None))
            (snd (Authenticate_on (pool_Provision Some) example_target
               (registered_example (Some full_claims, True, None))
               (example_state (example_pool (Some full_claims, True, None)))))))) =
     [''example'']"
proof -
  let ?R = "(Some full_claims, True, None) :: UserClaims option \<times> bool \<times> error option"
  let ?m = "unprovisioned_provider ?R"
  let ?i = "registered_example ?R"
  let ?s = "example_state (example_pool ?R)"
  let ?P = "pool_Provision Some"
  have f: "\<not> ProvisionFailed ?m" "\<not> Provisioned ?m" "Name ?m = ''example''"
    by (simp_all add: unprovisioned_provider_def example_provider_def)
  have q: "pool ?s = example_pool ?R" "trace ?s = []"
    by (simp_all add: example_state_def)
  have i: "?i (pool ?s) = ?m"
    by (simp add: registered_example_def example_pool_def example_state_def)
  note t = Authenticate_pool_effect [of ?P example_target ?m ?s ?i]
  from t have a1: "pool (snd (Authenticate ?P example_target ?m ?s)) =
      snd (pool_Provision Some (example_pool ?R) ''example'')"
    by (simp add: f q)
  from t have a2: "provision_calls (trace (snd (Authenticate ?P example_target ?m ?s))) = [''example'']"
    by (simp add: f q)
  have a3: "Provisioned (?i (pool (snd (Authenticate_on ?P example_target ?i ?s))))"
    unfolding Authenticate_on_def i a1
    by (simp add: registered_example_def pool_Provision_def example_pool_def
          unprovisioned_provider_def example_provider_def)
  from t have "provision_calls (trace (snd (Authenticate_on ?P example_target ?i
      (snd (Authenticate_on ?P example_target ?i ?s))))) =
     provision_calls (trace ?s) @
       (if ProvisionFailed (?i (pool ?s)) \<or> Provisioned (?i (pool ?s)) then []
        else [Name (?i (pool ?s))]) @
       (if ProvisionFailed (?i (pool (snd (Authenticate_on ?P example_target ?i ?s)))) \<or>
           Provisioned (?i (pool (snd (Authenticate_on ?P example_target ?i ?s))))
        then []
        else [Name (?i (pool (snd (Authenticate_on ?P example_target ?i ?s))))])"
    by (elim conjE)
  then have a4: "provision_calls (trace (snd (Authenticate_on ?P example_target ?i
      (snd (Authenticate_on ?P example_target ?i ?s))))) = [''example'']"
    unfolding i by (simp add: a3 f q(2))
  from a1 a2 a3 a4 show ?thesis
    by (intro conjI)
qed

end
